theory Spec2Isabelle
  imports Main
begin

unbundle bit_operations_syntax

section \<open>The hash provider: SHA-256\<close>

text \<open>
  Modelled from the spec: the hash provider. Both programs hash with
  \<^verbatim>\<open>SHA256(...).toString()\<close> of the crypto-js package, which is not among the sources;
  the specification assumes SHA-256 semantics and a hexadecimal digest. The operations of
  the blockchain below take the hash function as a parameter, and \<open>sha256\<close> is the
  instance the programs run with: the SHA-256 digest (FIPS 180-4) of the bytes of the
  argument, as 64 lower-case hexadecimal characters. A 32-bit word is an \<open>int\<close> in the
  range \<open>0 ..< 2^32\<close> with the wrap-around written out.
\<close>

definition add32 :: "int \<Rightarrow> int \<Rightarrow> int" where
  "add32 a b = (a + b) mod 4294967296"

definition rotr :: "nat \<Rightarrow> int \<Rightarrow> int" where
  "rotr n x = drop_bit n x + push_bit (32 - n) (take_bit n x)"

definition shr :: "nat \<Rightarrow> int \<Rightarrow> int" where
  "shr n x = drop_bit n x"

definition not32 :: "int \<Rightarrow> int" where
  "not32 x = 4294967295 - x"

definition Ch :: "int \<Rightarrow> int \<Rightarrow> int \<Rightarrow> int" where
  "Ch x y z = (x AND y) XOR (not32 x AND z)"

definition Maj :: "int \<Rightarrow> int \<Rightarrow> int \<Rightarrow> int" where
  "Maj x y z = (x AND y) XOR (x AND z) XOR (y AND z)"

definition bsig0 :: "int \<Rightarrow> int" where
  "bsig0 x = rotr 2 x XOR rotr 13 x XOR rotr 22 x"

definition bsig1 :: "int \<Rightarrow> int" where
  "bsig1 x = rotr 6 x XOR rotr 11 x XOR rotr 25 x"

definition ssig0 :: "int \<Rightarrow> int" where
  "ssig0 x = rotr 7 x XOR rotr 18 x XOR shr 3 x"

definition ssig1 :: "int \<Rightarrow> int" where
  "ssig1 x = rotr 17 x XOR rotr 19 x XOR shr 10 x"

definition K256 :: "int list" where
  "K256 =
    [1116352408, 1899447441, 3049323471, 3921009573, 961987163, 1508970993,
     2453635748, 2870763221, 3624381080, 310598401, 607225278, 1426881987,
     1925078388, 2162078206, 2614888103, 3248222580, 3835390401, 4022224774,
     264347078, 604807628, 770255983, 1249150122, 1555081692, 1996064986,
     2554220882, 2821834349, 2952996808, 3210313671, 3336571891, 3584528711,
     113926993, 338241895, 666307205, 773529912, 1294757372, 1396182291,
     1695183700, 1986661051, 2177026350, 2456956037, 2730485921, 2820302411,
     3259730800, 3345764771, 3516065817, 3600352804, 4094571909, 275423344,
     430227734, 506948616, 659060556, 883997877, 958139571, 1322822218,
     1537002063, 1747873779, 1955562222, 2024104815, 2227730452, 2361852424,
     2428436474, 2756734187, 3204031479, 3329325298]"

text \<open>
  \<open>K256\<close> above holds the 64 round constants and \<open>H0\<close> below the initial hash value,
  both in decimal. A state is the eight working variables; a window is the last sixteen
  words of the message schedule, oldest first.
\<close>

datatype state256 = State256 int int int int int int int int

datatype window = Window int int int int int int int int int int int int int int int int

definition H0 :: state256 where
  "H0 = State256 1779033703 3144134277 1013904242 2773480762
     1359893119 2600822924 528734635 1541459225"

fun slide :: "window \<Rightarrow> window" where
  "slide (Window w0 w1 w2 w3 w4 w5 w6 w7 w8 w9 w10 w11 w12 w13 w14 w15) =
     Window w1 w2 w3 w4 w5 w6 w7 w8 w9 w10 w11 w12 w13 w14 w15
       (add32 (add32 (add32 (ssig1 w14) w9) (ssig0 w1)) w0)"

fun first_word :: "window \<Rightarrow> int" where
  "first_word (Window w0 w1 w2 w3 w4 w5 w6 w7 w8 w9 w10 w11 w12 w13 w14 w15) = w0"

fun round_fin :: "state256 \<Rightarrow> int \<Rightarrow> int \<Rightarrow> state256" where
  "round_fin (State256 a b c d e f g h) t1 t2 = State256 (add32 t1 t2) a b c (add32 d t1) e f g"

fun round256 :: "state256 \<Rightarrow> int \<Rightarrow> int \<Rightarrow> state256" where
  "round256 (State256 a b c d e f g h) k w =
     round_fin (State256 a b c d e f g h)
       (add32 (add32 (add32 (add32 h (bsig1 e)) (Ch e f g)) k) w) (add32 (bsig0 a) (Maj a b c))"

fun rounds :: "state256 \<Rightarrow> int list \<Rightarrow> window \<Rightarrow> state256" where
  "rounds st [] win = st"
| "rounds st (k # ks) win = rounds (round256 st k (first_word win)) ks (slide win)"

fun add_state :: "state256 \<Rightarrow> state256 \<Rightarrow> state256" where
  "add_state (State256 a b c d e f g h) (State256 a' b' c' d' e' f' g' h') =
     State256 (add32 a a') (add32 b b') (add32 c c') (add32 d d')
       (add32 e e') (add32 f f') (add32 g g') (add32 h h')"

definition compress :: "state256 \<Rightarrow> window \<Rightarrow> state256" where
  "compress hs blk = add_state hs (rounds hs K256 blk)"

text \<open>Padding to a multiple of 64 bytes, big-endian words, blocks of sixteen words.\<close>

definition len64 :: "int \<Rightarrow> int list" where
  "len64 n = [n div 72057594037927936 mod 256, n div 281474976710656 mod 256,
     n div 1099511627776 mod 256, n div 4294967296 mod 256, n div 16777216 mod 256,
     n div 65536 mod 256, n div 256 mod 256, n mod 256]"

definition pad :: "int list \<Rightarrow> int list" where
  "pad bs = bs @ [128] @ replicate ((119 - length bs mod 64) mod 64) 0 @ len64 (8 * int (length bs))"

fun be32 :: "int list \<Rightarrow> int list" where
  "be32 (a # b # c # d # r) = (((a * 256 + b) * 256 + c) * 256 + d) # be32 r"
| "be32 r = []"

definition to_window :: "int list \<Rightarrow> window" where
  "to_window ws = Window (ws ! 0) (ws ! 1) (ws ! 2) (ws ! 3) (ws ! 4) (ws ! 5) (ws ! 6) (ws ! 7)
     (ws ! 8) (ws ! 9) (ws ! 10) (ws ! 11) (ws ! 12) (ws ! 13) (ws ! 14) (ws ! 15)"

fun blocks :: "int list \<Rightarrow> window list" where
  "blocks [] = []"
| "blocks (w # ws) = to_window (take 16 (w # ws)) # blocks (drop 16 (w # ws))"

definition hexdigit :: "int \<Rightarrow> char" where
  "hexdigit n = ''0123456789abcdef'' ! nat n"

definition hex32 :: "int \<Rightarrow> string" where
  "hex32 w = [hexdigit (w div 268435456), hexdigit (w div 16777216 mod 16),
     hexdigit (w div 1048576 mod 16), hexdigit (w div 65536 mod 16), hexdigit (w div 4096 mod 16),
     hexdigit (w div 256 mod 16), hexdigit (w div 16 mod 16), hexdigit (w mod 16)]"

fun digest :: "state256 \<Rightarrow> string" where
  "digest (State256 a b c d e f g h) =
     hex32 a @ hex32 b @ hex32 c @ hex32 d @ hex32 e @ hex32 f @ hex32 g @ hex32 h"

text \<open>
  Modelled from the spec: \<^verbatim>\<open>SHA256(s).toString()\<close>, the digest of a string of bytes.
\<close>

definition sha256 :: "string \<Rightarrow> string" where
  "sha256 s = digest (foldl compress H0 (blocks (be32 (pad (map of_char s)))))"

section \<open>JavaScript values as the programs print them\<close>

text \<open>
  \<^verbatim>\<open>calculateHash\<close> adds its fields with \<^verbatim>\<open>+\<close>. The second field, \<^verbatim>\<open>prevHash\<close>, is a
  string, so each \<^verbatim>\<open>+\<close> is a concatenation and every field enters by its string
  conversion. A counter (index, nonce) is a non-negative integer below \<open>10^21\<close> and
  prints as its decimal digits. A field that the object does not have reads as
  \<^verbatim>\<open>undefined\<close> and prints as the nine characters \<^verbatim>\<open>undefined\<close>.
\<close>

definition digit_char :: "nat \<Rightarrow> char" where
  "digit_char d = ''0123456789'' ! d"

function numToString :: "nat \<Rightarrow> string" where
  "numToString n = (if n < 10 then [digit_char n] else numToString (n div 10) @ [digit_char (n mod 10)])"
  by pat_completeness auto
termination
  by (relation "measure id") auto

declare numToString.simps [simp del]

definition intToString :: "int \<Rightarrow> string" where
  "intToString i = (if i < 0 then CHR ''-'' # numToString (nat (- i)) else numToString (nat i))"

text \<open>
  The data of a block in \<^verbatim>\<open>index.js\<close> is any JSON value; numbers are restricted to
  integers here, and the members of an object are listed in the order in which
  \<^verbatim>\<open>JSON.stringify\<close> enumerates them. \<open>quoteJSON\<close> is the string escaping of
  \<^verbatim>\<open>JSON.stringify\<close>.
\<close>

datatype json = JNull | JBool bool | JNum int | JStr string | JArr "json list" | JObj "(string \<times> json) list"

definition escapeChar :: "char \<Rightarrow> string" where
  "escapeChar c =
     (if c = CHR 0x22 then [CHR 0x5C, CHR 0x22]
      else if c = CHR 0x5C then [CHR 0x5C, CHR 0x5C]
      else if c = CHR 0x08 then [CHR 0x5C, CHR ''b'']
      else if c = CHR 0x0C then [CHR 0x5C, CHR ''f'']
      else if c = CHR 0x0A then [CHR 0x5C, CHR ''n'']
      else if c = CHR 0x0D then [CHR 0x5C, CHR ''r'']
      else if c = CHR 0x09 then [CHR 0x5C, CHR ''t'']
      else if (of_char c :: nat) < 32
        then [CHR 0x5C, CHR ''u'', CHR ''0'', CHR ''0'', hexdigit (of_char c div 16), hexdigit (of_char c mod 16)]
      else [c])"

definition quoteJSON :: "string \<Rightarrow> string" where
  "quoteJSON s = CHR 0x22 # concat (map escapeChar s) @ [CHR 0x22]"

fun stringify :: "json \<Rightarrow> string"
  and stringifyElements :: "json list \<Rightarrow> string"
  and stringifyMembers :: "(string \<times> json) list \<Rightarrow> string" where
  "stringify JNull = ''null''"
| "stringify (JBool b) = (if b then ''true'' else ''false'')"
| "stringify (JNum i) = intToString i"
| "stringify (JStr s) = quoteJSON s"
| "stringify (JArr xs) = ''['' @ stringifyElements xs @ '']''"
| "stringify (JObj ms) = ''{'' @ stringifyMembers ms @ ''}''"
| "stringifyElements [] = []"
| "stringifyElements [x] = stringify x"
| "stringifyElements (x # y # xs) = stringify x @ '','' @ stringifyElements (y # xs)"
| "stringifyMembers [] = []"
| "stringifyMembers [(k, v)] = quoteJSON k @ '':'' @ stringify v"
| "stringifyMembers ((k, v) # m # ms) = quoteJSON k @ '':'' @ stringify v @ '','' @ stringifyMembers (m # ms)"

text \<open>\<^verbatim>\<open>JSON.stringify(undefined)\<close> is \<^verbatim>\<open>undefined\<close>, which the concatenation prints.\<close>

definition JSON_stringify :: "json option \<Rightarrow> string" where
  "JSON_stringify d = (case d of None \<Rightarrow> ''undefined'' | Some j \<Rightarrow> stringify j)"

definition indexToString :: "nat option \<Rightarrow> string" where
  "indexToString i = (case i of None \<Rightarrow> ''undefined'' | Some n \<Rightarrow> numToString n)"

section \<open>Transactions and blocks\<close>

text \<open>
  An amount and a balance are JavaScript numbers: IEEE 754 doubles, with the two
  infinities and \<^verbatim>\<open>NaN\<close>. \<open>Finite m e\<close> is the number \<open>m * 2^e\<close>; the finite doubles are
  the numbers \<open>m * 2^e\<close> below \<open>2^1024\<close> in absolute value with \<open>\<bar>m\<bar> \<le> 2^53\<close> and
  \<open>-1074 \<le> e \<le> 971\<close>, and \<open>whole n\<close> is the integer \<open>n\<close>. One number has several such
  pairs (\<open>Finite 3 1\<close> and \<open>Finite 6 0\<close>); the programs never compare two numbers. The sign
  of a zero is left out: a balance starts at \<open>+0\<close>, and no sum or difference that starts
  there is \<open>-0\<close>.
\<close>

datatype number = Finite int int | PosInfinity | NegInfinity | NaN

definition whole :: "int \<Rightarrow> number" where
  "whole n = Finite n 0"

text \<open>The number of binary digits of a positive integer.\<close>

function bitLength :: "int \<Rightarrow> int" where
  "bitLength n = (if n \<le> 0 then 0 else 1 + bitLength (n div 2))"
  by pat_completeness auto
termination
  by (relation "measure nat") auto

declare bitLength.simps [simp del]

text \<open>\<open>m / 2^s\<close> rounded to the nearest integer, a tie to the even one.\<close>

definition roundShift :: "int \<Rightarrow> nat \<Rightarrow> int" where
  "roundShift m s =
     (let q = m div 2 ^ s; r = m mod 2 ^ s; half = 2 ^ (s - 1)
      in if r < half then q else if half < r then q + 1 else if even q then q else q + 1)"

text \<open>
  The double nearest to \<open>m * 2^e\<close>, for \<open>-1074 \<le> e\<close>: the number itself when \<open>m\<close> has at
  most 53 binary digits, else \<open>m\<close> rounded to 53 digits (to the nearest, a tie to the
  even one), and an infinity when the rounded number reaches \<open>2^1024\<close>.
\<close>

definition toDouble :: "int \<Rightarrow> int \<Rightarrow> number" where
  "toDouble m e =
     (if \<bar>m\<bar> < 9007199254740992 then Finite m e
      else
        (let s = nat (bitLength \<bar>m\<bar> - 53); m' = roundShift m s; e' = e + int s
         in if 0 \<le> e' \<and> 2 ^ 1024 \<le> \<bar>m'\<bar> * 2 ^ nat e'
            then (if 0 < m then PosInfinity else NegInfinity)
            else Finite m' e'))"

text \<open>
  \<^verbatim>\<open>x + y\<close> and \<^verbatim>\<open>x - y\<close> on numbers, which the balance scan runs as \<^verbatim>\<open>balance += \<close> and
  \<^verbatim>\<open>balance -= trans.amount\<close>: the exact sum of two doubles, a multiple of the smaller of
  the two units, rounded to a double; an infinity absorbs every finite number, and the
  sum of the two infinities, as every sum with \<^verbatim>\<open>NaN\<close>, is \<^verbatim>\<open>NaN\<close>.
\<close>

fun jsAdd :: "number \<Rightarrow> number \<Rightarrow> number" where
  "jsAdd (Finite m1 e1) (Finite m2 e2) =
     (let e = min e1 e2 in toDouble (m1 * 2 ^ nat (e1 - e) + m2 * 2 ^ nat (e2 - e)) e)"
| "jsAdd NaN y = NaN"
| "jsAdd x NaN = NaN"
| "jsAdd PosInfinity NegInfinity = NaN"
| "jsAdd NegInfinity PosInfinity = NaN"
| "jsAdd PosInfinity y = PosInfinity"
| "jsAdd x PosInfinity = PosInfinity"
| "jsAdd NegInfinity y = NegInfinity"
| "jsAdd x NegInfinity = NegInfinity"

fun negate :: "number \<Rightarrow> number" where
  "negate (Finite m e) = Finite (- m) e"
| "negate PosInfinity = NegInfinity"
| "negate NegInfinity = PosInfinity"
| "negate NaN = NaN"

definition jsSub :: "number \<Rightarrow> number \<Rightarrow> number" where
  "jsSub x y = jsAdd x (negate y)"

text \<open>
  An address is a string, or \<^verbatim>\<open>null\<close> (\<open>None\<close>), the sender of a reward.
\<close>

record Transaction =
  fromAddress :: "string option"
  toAddress :: "string option"
  amount :: number

text \<open>
  What the \<^verbatim>\<open>transaction\<close> field of a block holds: nothing (a block of \<^verbatim>\<open>index.js\<close>
  has no such field), the string of the genesis block, or the array of transactions that
  \<^verbatim>\<open>minePedingTransactions\<close> stores.
\<close>

datatype payload = Undefined | Text string | Txs "Transaction list"

text \<open>
  The class \<^verbatim>\<open>Block\<close> exists twice, with the same \<^verbatim>\<open>calculateHash\<close> and
  \<^verbatim>\<open>mineBlock\<close>: in \<^verbatim>\<open>index.js\<close> with the fields \<^verbatim>\<open>index\<close> and \<^verbatim>\<open>data\<close>, in the
  transaction program with the field \<^verbatim>\<open>transaction\<close>. One record holds both; a field
  that the object does not have is \<open>None\<close> or \<open>Undefined\<close>.
\<close>

record Block =
  index :: "nat option"
  timestamp :: string
  data :: "json option"
  transaction :: payload
  prevHash :: string
  hash :: string
  nonce :: nat

text \<open>
  The text that \<^verbatim>\<open>calculateHash\<close> hashes,
  \<^verbatim>\<open>this.index + this.prevHash + this.timestamp + JSON.stringify(this.data) + this.nonce\<close>,
  with the printed nonce as second argument.
\<close>

definition hashInput :: "Block \<Rightarrow> string \<Rightarrow> string" where
  "hashInput b n = indexToString (index b) @ prevHash b @ timestamp b @ JSON_stringify (data b) @ n"

definition calculateHash :: "(string \<Rightarrow> string) \<Rightarrow> Block \<Rightarrow> string" where
  "calculateHash SHA256 b = SHA256 (hashInput b (numToString (nonce b)))"

text \<open>
  The constructors assign \<^verbatim>\<open>this.hash = this.calculateHash()\<close> one statement before
  \<^verbatim>\<open>this.nonce = 0\<close>: the hash is computed while the nonce is still \<^verbatim>\<open>undefined\<close>.
  The parameter \<^verbatim>\<open>prevHash\<close> defaults to the empty string.
\<close>

definition Block_constructor :: "(string \<Rightarrow> string) \<Rightarrow> nat \<Rightarrow> string \<Rightarrow> json \<Rightarrow> string \<Rightarrow> Block" where
  "Block_constructor SHA256 i ts d p =
     (let this = \<lparr>index = Some i, timestamp = ts, data = Some d, transaction = Undefined,
                  prevHash = p, hash = [], nonce = 0\<rparr>
      in this\<lparr>hash := SHA256 (hashInput this ''undefined'')\<rparr>)"

definition Block_constructor_tx :: "(string \<Rightarrow> string) \<Rightarrow> string \<Rightarrow> payload \<Rightarrow> string \<Rightarrow> Block" where
  "Block_constructor_tx SHA256 ts tx p =
     (let this = \<lparr>index = None, timestamp = ts, data = None, transaction = tx,
                  prevHash = p, hash = [], nonce = 0\<rparr>
      in this\<lparr>hash := SHA256 (hashInput this ''undefined'')\<rparr>)"

text \<open>
  \<^verbatim>\<open>this.nonce++\<close> on a double: exact up to \<open>2^53\<close>, where adding one changes nothing.
\<close>

definition increment :: "nat \<Rightarrow> nat" where
  "increment n = (if n < 9007199254740992 then n + 1 else n)"

text \<open>
  The mining loop has no bound, so the model is a partial function: \<open>None\<close> is a loop that
  never exits. The difficulty is a non-negative integer, for which
  \<^verbatim>\<open>Array(difficulty + 1).join("0")\<close> is the string of that many zeros and
  \<^verbatim>\<open>substring(0, difficulty)\<close> is \<open>take\<close>. (A difficulty that is no array length makes
  \<^verbatim>\<open>Array\<close> throw before the first test; the blockchains use the difficulty 2.)
\<close>

partial_function (option) mineBlock :: "(string \<Rightarrow> string) \<Rightarrow> nat \<Rightarrow> Block \<Rightarrow> Block option" where
  "mineBlock SHA256 d b =
     (if take d (hash b) = replicate d CHR ''0'' then Some b
      else mineBlock SHA256 d
        (let this = b\<lparr>nonce := increment (nonce b)\<rparr> in this\<lparr>hash := calculateHash SHA256 this\<rparr>))"

section \<open>The blockchain\<close>

text \<open>
  \<^verbatim>\<open>Blockchain\<close> of \<^verbatim>\<open>index.js\<close> has the chain and the difficulty; the transaction
  program adds the pending transactions and the mining reward. \<^verbatim>\<open>createTimeStamp()\<close> of
  \<^verbatim>\<open>utils.js\<close> is not among the sources: the timestamp that it returns is an argument
  of each operation that reads the clock, as the string that the hash input prints.
\<close>

datatype error = TypeError

record Blockchain =
  chain :: "Block list"
  difficulty :: nat

record TxBlockchain = Blockchain +
  pendingTransaction :: "Transaction list"
  miningReward :: number

definition createGenesisBlock :: "(string \<Rightarrow> string) \<Rightarrow> string \<Rightarrow> Block" where
  "createGenesisBlock SHA256 ts = Block_constructor SHA256 0 ts (JStr ''Genesis block'') ''0''"

definition Blockchain_constructor :: "(string \<Rightarrow> string) \<Rightarrow> string \<Rightarrow> Blockchain" where
  "Blockchain_constructor SHA256 ts = \<lparr>chain = [createGenesisBlock SHA256 ts], difficulty = 2\<rparr>"

definition createGenesisBlock_tx :: "(string \<Rightarrow> string) \<Rightarrow> string \<Rightarrow> Block" where
  "createGenesisBlock_tx SHA256 ts = Block_constructor_tx SHA256 ts (Text ''Genesis block'') ''0''"

definition TxBlockchain_constructor :: "(string \<Rightarrow> string) \<Rightarrow> string \<Rightarrow> TxBlockchain" where
  "TxBlockchain_constructor SHA256 ts =
     \<lparr>chain = [createGenesisBlock_tx SHA256 ts], difficulty = 2, pendingTransaction = [],
       miningReward = whole 100\<rparr>"

text \<open>\<^verbatim>\<open>this.chain[this.chain.length - 1]\<close> is \<^verbatim>\<open>undefined\<close> on an empty chain.\<close>

definition getLatestBlock :: "'a Blockchain_scheme \<Rightarrow> Block option" where
  "getLatestBlock bc = (if chain bc = [] then None else Some (last (chain bc)))"

text \<open>
  \<^verbatim>\<open>addBlock\<close> of \<^verbatim>\<open>index.js\<close>. Reading \<^verbatim>\<open>.hash\<close> of \<^verbatim>\<open>undefined\<close> throws; a mining
  loop that never exits gives \<open>None\<close>.
\<close>

definition addBlock :: "(string \<Rightarrow> string) \<Rightarrow> Block \<Rightarrow> Blockchain \<Rightarrow> (error + Blockchain) option" where
  "addBlock SHA256 newBlock bc =
     (case getLatestBlock bc of
        None \<Rightarrow> Some (Inl TypeError)
      | Some latest \<Rightarrow>
          (case mineBlock SHA256 (difficulty bc) (newBlock\<lparr>prevHash := hash latest\<rparr>) of
             None \<Rightarrow> None
           | Some mined \<Rightarrow> Some (Inr (bc\<lparr>chain := chain bc @ [mined]\<rparr>))))"

text \<open>
  \<^verbatim>\<open>minePedingTransactions\<close> builds its block with \<^verbatim>\<open>new Block(createTimeStamp(),
  this.pendingTransaction)\<close>: the third argument is left to its default, and nothing reads
  the latest block.
\<close>

definition minePedingTransactions :: "(string \<Rightarrow> string) \<Rightarrow> string \<Rightarrow> string \<Rightarrow> TxBlockchain \<Rightarrow> TxBlockchain option" where
  "minePedingTransactions SHA256 ts miningRewardAddress bc =
     (case mineBlock SHA256 (difficulty bc) (Block_constructor_tx SHA256 ts (Txs (pendingTransaction bc)) []) of
        None \<Rightarrow> None
      | Some block \<Rightarrow>
          Some (bc\<lparr>chain := chain bc @ [block],
                   pendingTransaction :=
                     [\<lparr>fromAddress = None, toAddress = Some miningRewardAddress, amount = miningReward bc\<rparr>]\<rparr>))"

definition createTransaction :: "Transaction \<Rightarrow> TxBlockchain \<Rightarrow> TxBlockchain" where
  "createTransaction tx bc = bc\<lparr>pendingTransaction := pendingTransaction bc @ [tx]\<rparr>"

text \<open>
  \<^verbatim>\<open>getBalanceOfAddress\<close> runs \<^verbatim>\<open>for (let trans of block.transaction)\<close> over every block.
  Over an array the loop visits the transactions. Over a string it visits the characters,
  each a string, whose \<^verbatim>\<open>fromAddress\<close> and \<^verbatim>\<open>toAddress\<close> read as \<^verbatim>\<open>undefined\<close>: neither
  \<^verbatim>\<open>===\<close> test holds for an address, and the balance stays. \<^verbatim>\<open>undefined\<close> is not
  iterable, and the loop throws.
\<close>

definition applyTransaction :: "string option \<Rightarrow> Transaction \<Rightarrow> number \<Rightarrow> number" where
  "applyTransaction address tr balance =
     (let balance1 = (if fromAddress tr = address then jsSub balance (amount tr) else balance)
      in if toAddress tr = address then jsAdd balance1 (amount tr) else balance1)"

definition applyCharacter :: "string option \<Rightarrow> char \<Rightarrow> number \<Rightarrow> number" where
  "applyCharacter address c balance = balance"

fun scanBlocks :: "string option \<Rightarrow> Block list \<Rightarrow> number \<Rightarrow> error + number" where
  "scanBlocks address [] balance = Inr balance"
| "scanBlocks address (block # rest) balance =
     (case transaction block of
        Undefined \<Rightarrow> Inl TypeError
      | Text s \<Rightarrow> scanBlocks address rest (fold (applyCharacter address) s balance)
      | Txs ts \<Rightarrow> scanBlocks address rest (fold (applyTransaction address) ts balance))"

definition getBalanceOfAddress :: "TxBlockchain \<Rightarrow> string option \<Rightarrow> error + number" where
  "getBalanceOfAddress bc address = scanBlocks address (chain bc) (whole 0)"

text \<open>
  \<^verbatim>\<open>isChainValid\<close>: the loop from index 1. The program returns \<^verbatim>\<open>false\<close> after one of two
  \<^verbatim>\<open>console.error\<close> lines; \<open>validateFrom\<close> returns which line, with the index it stopped at.
\<close>

datatype mismatch = HashMismatch nat | LinkMismatch nat

function validateFrom :: "(string \<Rightarrow> string) \<Rightarrow> Block list \<Rightarrow> nat \<Rightarrow> mismatch option" where
  "validateFrom SHA256 c i =
     (if i < length c then
        (if hash (c ! i) = calculateHash SHA256 (c ! i) then
           (if prevHash (c ! i) = hash (c ! (i - 1)) then validateFrom SHA256 c (i + 1)
            else Some (LinkMismatch i))
         else Some (HashMismatch i))
      else None)"
  by pat_completeness auto
termination
  by (relation "measure (\<lambda>(SHA256, c, i). length c - i)") auto

declare validateFrom.simps [simp del]

definition chainReport :: "(string \<Rightarrow> string) \<Rightarrow> 'a Blockchain_scheme \<Rightarrow> mismatch option" where
  "chainReport SHA256 bc = validateFrom SHA256 (chain bc) 1"

definition isChainValid :: "(string \<Rightarrow> string) \<Rightarrow> 'a Blockchain_scheme \<Rightarrow> bool" where
  "isChainValid SHA256 bc = (chainReport SHA256 bc = None)"

text \<open>
  The ledgers that the operations of the transaction program build, from transactions that
  satisfy \<open>P\<close>.
\<close>

inductive reachable :: "(string \<Rightarrow> string) \<Rightarrow> (Transaction \<Rightarrow> bool) \<Rightarrow> TxBlockchain \<Rightarrow> bool"
  for SHA256 and P where
  fresh: "reachable SHA256 P (TxBlockchain_constructor SHA256 ts)"
| created: "reachable SHA256 P bc \<Longrightarrow> P tx \<Longrightarrow> reachable SHA256 P (createTransaction tx bc)"
| mined: "reachable SHA256 P bc \<Longrightarrow> minePedingTransactions SHA256 ts a bc = Some bc' \<Longrightarrow>
     reachable SHA256 P bc'"

definition anyTransaction :: "Transaction \<Rightarrow> bool" where
  "anyTransaction tx = True"

section \<open>Balances over a chain\<close>

text \<open>
  The transactions that the blocks of a chain hold, in order; a transfer between two
  addresses; a reward of a given amount; the addresses that occur in a list of
  transactions (\<^verbatim>\<open>null\<close> is not one); and the sum of the balances of a list of addresses,
  added as numbers from the last address back.
\<close>

definition transactionsOf :: "Block \<Rightarrow> Transaction list" where
  "transactionsOf b = (case transaction b of Txs ts \<Rightarrow> ts | Text s \<Rightarrow> [] | Undefined \<Rightarrow> [])"

definition chainTransactions :: "Block list \<Rightarrow> Transaction list" where
  "chainTransactions c = concat (map transactionsOf c)"

definition hasPayload :: "Block \<Rightarrow> bool" where
  "hasPayload b = (case transaction b of Undefined \<Rightarrow> False | Text s \<Rightarrow> True | Txs ts \<Rightarrow> True)"

definition holdsTransactions :: "Block \<Rightarrow> bool" where
  "holdsTransactions b = (case transaction b of Txs ts \<Rightarrow> True | Text s \<Rightarrow> False | Undefined \<Rightarrow> False)"

definition isPeerToPeer :: "Transaction \<Rightarrow> bool" where
  "isPeerToPeer tx = (fromAddress tx \<noteq> None \<and> toAddress tx \<noteq> None)"

definition isReward :: "number \<Rightarrow> Transaction \<Rightarrow> bool" where
  "isReward r tx = (fromAddress tx = None \<and> toAddress tx \<noteq> None \<and> amount tx = r)"

definition transferOrReward :: "number \<Rightarrow> Transaction \<Rightarrow> bool" where
  "transferOrReward r tx = (isPeerToPeer tx \<or> isReward r tx)"

definition addresses :: "Transaction list \<Rightarrow> string option list" where
  "addresses txs = remdups (filter (\<lambda>a. a \<noteq> None) (concat (map (\<lambda>tx. [fromAddress tx, toAddress tx]) txs)))"

fun sumBalances :: "TxBlockchain \<Rightarrow> string option list \<Rightarrow> error + number" where
  "sumBalances bc [] = Inr (whole 0)"
| "sumBalances bc (a # as) =
     (case getBalanceOfAddress bc a of
        Inl e \<Rightarrow> Inl e
      | Inr v \<Rightarrow> (case sumBalances bc as of Inl e \<Rightarrow> Inl e | Inr rest \<Rightarrow> Inr (jsAdd v rest)))"

text \<open>
  Amounts that are integers: \<open>units\<close> is the integer, \<open>volume\<close> the sum of the absolute
  amounts of a list of transactions, and \<open>contribution a tx\<close> what the transaction adds
  to the balance of \<open>a\<close> when the arithmetic is exact.
\<close>

definition isWhole :: "number \<Rightarrow> bool" where
  "isWhole x = (case x of Finite m e \<Rightarrow> e = 0 | PosInfinity \<Rightarrow> False | NegInfinity \<Rightarrow> False | NaN \<Rightarrow> False)"

definition units :: "number \<Rightarrow> int" where
  "units x = (case x of Finite m e \<Rightarrow> m | PosInfinity \<Rightarrow> 0 | NegInfinity \<Rightarrow> 0 | NaN \<Rightarrow> 0)"

definition wholeAmounts :: "Transaction list \<Rightarrow> bool" where
  "wholeAmounts txs = list_all (\<lambda>tx. isWhole (amount tx)) txs"

definition volume :: "Transaction list \<Rightarrow> int" where
  "volume txs = (\<Sum>tx\<leftarrow>txs. \<bar>units (amount tx)\<bar>)"

definition contribution :: "string option \<Rightarrow> Transaction \<Rightarrow> int" where
  "contribution a tx =
     (if toAddress tx = a then units (amount tx) else 0) - (if fromAddress tx = a then units (amount tx) else 0)"

section \<open>The programs' own runs\<close>

text \<open>
  \<^verbatim>\<open>index.js\<close> ends by adding three blocks with the data \<^verbatim>\<open>{amount: 4}\<close>,
  \<^verbatim>\<open>{amount: 8}\<close> and \<^verbatim>\<open>{amount: 10}\<close> to a new chain (Scenario A). The README and the first
  program then overwrite the data of block 1 and recompute its hash (Scenario B), on a
  chain that has a block 1.
\<close>

definition amountData :: "int \<Rightarrow> json" where
  "amountData n = JObj [(''amount'', JNum n)]"

definition scenarioA :: "(string \<Rightarrow> string) \<Rightarrow> string \<Rightarrow> string \<Rightarrow> string \<Rightarrow> string \<Rightarrow> (error + Blockchain) option" where
  "scenarioA SHA256 t0 t1 t2 t3 =
     (case addBlock SHA256 (Block_constructor SHA256 1 t1 (amountData 4) []) (Blockchain_constructor SHA256 t0) of
        Some (Inr bc1) \<Rightarrow>
          (case addBlock SHA256 (Block_constructor SHA256 2 t2 (amountData 8) []) bc1 of
             Some (Inr bc2) \<Rightarrow> addBlock SHA256 (Block_constructor SHA256 3 t3 (amountData 10) []) bc2
           | r \<Rightarrow> r)
      | r \<Rightarrow> r)"

definition scenarioB :: "(string \<Rightarrow> string) \<Rightarrow> Blockchain \<Rightarrow> Blockchain" where
  "scenarioB SHA256 bc =
     (let b = (chain bc ! 1)\<lparr>data := Some (amountData 100)\<rparr>
      in bc\<lparr>chain := (chain bc)[1 := b\<lparr>hash := calculateHash SHA256 b\<rparr>]\<rparr>)"

text \<open>
  The transaction program submits two transfers and mines (Scenario C, with the names of
  the specification), then mines again.
\<close>

definition transfer :: "string \<Rightarrow> string \<Rightarrow> int \<Rightarrow> Transaction" where
  "transfer a b n = \<lparr>fromAddress = Some a, toAddress = Some b, amount = whole n\<rparr>"

definition scenarioC_pending :: "(string \<Rightarrow> string) \<Rightarrow> string \<Rightarrow> TxBlockchain" where
  "scenarioC_pending SHA256 t0 =
     createTransaction (transfer ''A'' ''B'' 200)
       (createTransaction (transfer ''A'' ''B'' 100) (TxBlockchain_constructor SHA256 t0))"

definition scenarioC :: "(string \<Rightarrow> string) \<Rightarrow> string \<Rightarrow> string \<Rightarrow> TxBlockchain option" where
  "scenarioC SHA256 t0 t1 = minePedingTransactions SHA256 t1 ''M'' (scenarioC_pending SHA256 t0)"

definition scenarioD :: "(string \<Rightarrow> string) \<Rightarrow> string \<Rightarrow> string \<Rightarrow> string \<Rightarrow> TxBlockchain option" where
  "scenarioD SHA256 t0 t1 t2 =
     (case scenarioC SHA256 t0 t1 of None \<Rightarrow> None | Some bc \<Rightarrow> minePedingTransactions SHA256 t2 ''M'' bc)"

text \<open>
  Two further runs of the transaction program. In the first A sends \<open>2^53\<close> to B and C
  sends 1 to B. In the second A sends 0.1 to B and C sends 0.2 to B; \<open>tenth\<close> and
  \<open>fifth\<close> are the doubles that the literals \<^verbatim>\<open>0.1\<close> and \<^verbatim>\<open>0.2\<close> denote.
\<close>

definition scenarioBig :: "(string \<Rightarrow> string) \<Rightarrow> string \<Rightarrow> string \<Rightarrow> TxBlockchain option" where
  "scenarioBig SHA256 t0 t1 =
     minePedingTransactions SHA256 t1 ''M''
       (createTransaction (transfer ''C'' ''B'' 1)
         (createTransaction (transfer ''A'' ''B'' 9007199254740992) (TxBlockchain_constructor SHA256 t0)))"

definition tenth :: number where
  "tenth = Finite 3602879701896397 (- 55)"

definition fifth :: number where
  "fifth = Finite 3602879701896397 (- 54)"

definition scenarioFractions :: "(string \<Rightarrow> string) \<Rightarrow> string \<Rightarrow> string \<Rightarrow> TxBlockchain option" where
  "scenarioFractions SHA256 t0 t1 =
     minePedingTransactions SHA256 t1 ''M''
       (createTransaction \<lparr>fromAddress = Some ''C'', toAddress = Some ''B'', amount = fifth\<rparr>
         (createTransaction \<lparr>fromAddress = Some ''A'', toAddress = Some ''B'', amount = tenth\<rparr>
           (TxBlockchain_constructor SHA256 t0)))"

text \<open>
  Overwriting the payload of the block at an index of the chain, the stored hash left as
  it is.
\<close>

definition tamperPayload :: "nat \<Rightarrow> payload \<Rightarrow> TxBlockchain \<Rightarrow> TxBlockchain" where
  "tamperPayload i p bc = bc\<lparr>chain := (chain bc)[i := (chain bc ! i)\<lparr>transaction := p\<rparr>]\<rparr>"

text \<open>
  Modelled from the spec: clock readings of one run of each program. The specification
  calls the result of the timestamp provider an opaque token that the hash input embeds
  as it is; the readings here are strings in the format of \<^verbatim>\<open>Date.toISOString()\<close>.
\<close>

definition clock_genesis :: string where
  "clock_genesis = ''2025-01-15T10:30:00.000Z''"

definition clock_block1 :: string where
  "clock_block1 = ''2025-01-15T10:30:01.201Z''"

definition clock_block2 :: string where
  "clock_block2 = ''2025-01-15T10:30:02.151Z''"

definition clock_block3 :: string where
  "clock_block3 = ''2025-01-15T10:30:03.677Z''"

definition clock_block2_unmined :: string where
  "clock_block2_unmined = ''2025-01-15T10:30:02.039Z''"

definition clock_block3_late :: string where
  "clock_block3_late = ''2025-01-15T10:30:03.451Z''"

definition clock_tx_block1 :: string where
  "clock_tx_block1 = ''2025-01-15T10:30:01.042Z''"

definition clock_tx_block2 :: string where
  "clock_tx_block2 = ''2025-01-15T10:30:05.271Z''"

definition scenarioMine :: "(string \<Rightarrow> string) \<Rightarrow> string \<Rightarrow> string \<Rightarrow> TxBlockchain option" where
  "scenarioMine SHA256 t0 t1 = minePedingTransactions SHA256 t1 ''M'' (TxBlockchain_constructor SHA256 t0)"

text \<open>
  The blocks of these runs, with the digests that \<open>sha256\<close> gives. In the run of
  \<^verbatim>\<open>index.js\<close> each mined block is found at nonce 1; at the clock reading
  \<open>clock_block2_unmined\<close> the hash that the constructor stores already starts with two
  zeros.
\<close>

definition genesis_block :: Block where
  "genesis_block =
     \<lparr>index = Some 0, timestamp = clock_genesis, data = Some (JStr ''Genesis block''), transaction = Undefined,
      prevHash = ''0'',
      hash = ''73635dced1daa09cb91138598a119457cd86ec15ff48260cb6dc624e3d8eb0ec'',
      nonce = 0\<rparr>"

definition block1_mined :: Block where
  "block1_mined =
     \<lparr>index = Some 1, timestamp = clock_block1, data = Some (amountData 4), transaction = Undefined,
      prevHash = ''73635dced1daa09cb91138598a119457cd86ec15ff48260cb6dc624e3d8eb0ec'',
      hash = ''00029254da8689613f076347a11fafc25ced7b2d414f1cbe240c561cafcb0b43'',
      nonce = 1\<rparr>"

definition block2_mined :: Block where
  "block2_mined =
     \<lparr>index = Some 2, timestamp = clock_block2, data = Some (amountData 8), transaction = Undefined,
      prevHash = ''00029254da8689613f076347a11fafc25ced7b2d414f1cbe240c561cafcb0b43'',
      hash = ''00c7b3c382fef68e52c6013a3b023db2eb2980df8a234493657970578293c02a'',
      nonce = 1\<rparr>"

definition block3_mined :: Block where
  "block3_mined =
     \<lparr>index = Some 3, timestamp = clock_block3, data = Some (amountData 10), transaction = Undefined,
      prevHash = ''00c7b3c382fef68e52c6013a3b023db2eb2980df8a234493657970578293c02a'',
      hash = ''00241bd5b80a83eed5a90495de7cdc351baa366a8959ab92e89d263a09bf3757'',
      nonce = 1\<rparr>"

definition block2_unmined :: Block where
  "block2_unmined =
     \<lparr>index = Some 2, timestamp = clock_block2_unmined, data = Some (amountData 8), transaction = Undefined,
      prevHash = ''00029254da8689613f076347a11fafc25ced7b2d414f1cbe240c561cafcb0b43'',
      hash = ''00840e9a753083513deab96928e783daca8ae6f16b0952f5007514e6e7d22237'',
      nonce = 0\<rparr>"

definition block3_late :: Block where
  "block3_late =
     \<lparr>index = Some 3, timestamp = clock_block3_late, data = Some (amountData 10), transaction = Undefined,
      prevHash = ''00840e9a753083513deab96928e783daca8ae6f16b0952f5007514e6e7d22237'',
      hash = ''0034a88b86822cf55087613e1d8c9ee82509f1a92497d2672ff69b1eaf092eb7'',
      nonce = 1\<rparr>"

definition tx_genesis :: Block where
  "tx_genesis =
     \<lparr>index = None, timestamp = clock_genesis, data = None, transaction = Text ''Genesis block'',
      prevHash = ''0'',
      hash = ''f83eab8dc8ddfff2dd997504a99d82fc9c6134d962149abbe1038d74b25377ad'',
      nonce = 0\<rparr>"

definition tx_block1 :: "payload \<Rightarrow> Block" where
  "tx_block1 p =
     \<lparr>index = None, timestamp = clock_tx_block1, data = None, transaction = p,
      prevHash = [],
      hash = ''0041af2047311ab83bc51d9d9cef4852a5cc236240d9fe2268bb6b53a094027a'',
      nonce = 1\<rparr>"

definition tx_block2 :: "payload \<Rightarrow> Block" where
  "tx_block2 p =
     \<lparr>index = None, timestamp = clock_tx_block2, data = None, transaction = p,
      prevHash = [],
      hash = ''005b77dafd1007dbb90b05aba3eed41962cbafa175e379f11bbde9c19b2a698a'',
      nonce = 1\<rparr>"

definition reward :: "string \<Rightarrow> Transaction" where
  "reward a = \<lparr>fromAddress = None, toAddress = Some a, amount = whole 100\<rparr>"

definition chain_typical :: Blockchain where
  "chain_typical = \<lparr>chain = [genesis_block, block1_mined, block2_mined, block3_mined], difficulty = 2\<rparr>"

definition chain_unmined :: Blockchain where
  "chain_unmined = \<lparr>chain = [genesis_block, block1_mined, block2_unmined, block3_late], difficulty = 2\<rparr>"

definition ledger_mined :: TxBlockchain where
  "ledger_mined =
     \<lparr>chain = [tx_genesis, tx_block1 (Txs [])], difficulty = 2,
      pendingTransaction = [reward ''M''], miningReward = whole 100\<rparr>"

definition ledgerC :: TxBlockchain where
  "ledgerC =
     \<lparr>chain = [tx_genesis, tx_block1 (Txs [transfer ''A'' ''B'' 100, transfer ''A'' ''B'' 200])],
      difficulty = 2, pendingTransaction = [reward ''M''], miningReward = whole 100\<rparr>"

definition ledgerBig :: TxBlockchain where
  "ledgerBig =
     \<lparr>chain = [tx_genesis, tx_block1 (Txs [transfer ''A'' ''B'' 9007199254740992, transfer ''C'' ''B'' 1])],
      difficulty = 2, pendingTransaction = [reward ''M''], miningReward = whole 100\<rparr>"

definition ledgerFractions :: TxBlockchain where
  "ledgerFractions =
     \<lparr>chain = [tx_genesis,
        tx_block1 (Txs [\<lparr>fromAddress = Some ''A'', toAddress = Some ''B'', amount = tenth\<rparr>,
                        \<lparr>fromAddress = Some ''C'', toAddress = Some ''B'', amount = fifth\<rparr>])],
      difficulty = 2, pendingTransaction = [reward ''M''], miningReward = whole 100\<rparr>"

definition ledgerD :: TxBlockchain where
  "ledgerD =
     \<lparr>chain = [tx_genesis, tx_block1 (Txs [transfer ''A'' ''B'' 100, transfer ''A'' ''B'' 200]),
               tx_block2 (Txs [reward ''M''])],
      difficulty = 2, pendingTransaction = [reward ''M''], miningReward = whole 100\<rparr>"

section \<open>Facts about SHA-256\<close>

text \<open>
  An addition of two words needs at most one subtraction of \<open>2^32\<close>; evaluation uses
  this form.
\<close>

lemma add32_code [code]:
  "add32 a b = (if 0 \<le> a + b \<and> a + b < 4294967296 then a + b
     else if 4294967296 \<le> a + b \<and> a + b < 8589934592 then a + b - 4294967296
     else (a + b) mod 4294967296)"
proof -
  have "a + b - 4294967296 = (a + b) mod 4294967296" if "4294967296 \<le> a + b" "a + b < 8589934592"
  proof -
    have "(a + b - 4294967296) mod 4294967296 = (a + b) mod 4294967296"
      by (rule minus_mod_self2)
    moreover have "(a + b - 4294967296) mod 4294967296 = a + b - 4294967296"
      using that by (intro mod_pos_pos_trivial) linarith+
    ultimately show ?thesis by linarith
  qed
  moreover have "(a + b) mod 4294967296 = a + b" if "0 \<le> a + b" "a + b < 4294967296"
    using that by (rule mod_pos_pos_trivial)
  ultimately show ?thesis unfolding add32_def by presburger
qed

text \<open>Every digest has 64 characters.\<close>

lemma length_hex32: "length (hex32 w) = 8"
  by (simp add: hex32_def)

lemma length_sha256: "length (sha256 s) = 64"
proof -
  have "length (digest st) = 64" for st
    by (cases st) (simp add: length_hex32)
  then show ?thesis by (simp add: sha256_def)
qed

lemma sha256_not_empty: "sha256 s \<noteq> []"
  using length_sha256 [of s] by auto

text \<open>The test vectors of FIPS 180-4 for one and for two blocks.\<close>

lemma sha256_abc:
  "sha256 ''abc'' = ''ba7816bf8f01cfea414140de5dae2223b00361a396177a9cb410ff61f20015ad''"
  by code_simp

lemma sha256_two_blocks:
  "sha256 ''abcdbcdecdefdefgefghfghighijhijkijkljklmklmnlmnomnopnopq'' =
     ''248d6a61d20638b8e5c026930c3e6039a33ce45964ff2167f6ecedd419db06c1''"
  by code_simp

text \<open>The digests of the texts that the blocks of the runs hash.\<close>

lemma hash_genesis:
  \<open>sha256 ''002025-01-15T10:30:00.000Z"Genesis block"undefined'' =
     ''73635dced1daa09cb91138598a119457cd86ec15ff48260cb6dc624e3d8eb0ec''\<close>
  by code_simp

lemma hash_block1_constructed:
  \<open>sha256 ''12025-01-15T10:30:01.201Z{"amount":4}undefined'' =
     ''b03844a050ae90e233f405b338be1ff162cb0eea58a90c9ad0e3eec02eb713c4''\<close>
  by code_simp

lemma hash_block1_nonce0:
  \<open>sha256 ''12025-01-15T10:30:01.201Z{"amount":4}0'' =
     ''8437d2c10e16e557bf99d750047144fd92abaed73ec72398f653764fcf66bd07''\<close>
  by code_simp

lemma hash_block1_mined:
  \<open>sha256 ''173635dced1daa09cb91138598a119457cd86ec15ff48260cb6dc624e3d8eb0ec2025-01-15T10:30:01.201Z{"amount":4}1'' =
     ''00029254da8689613f076347a11fafc25ced7b2d414f1cbe240c561cafcb0b43''\<close>
  by code_simp

lemma hash_block1_tampered:
  \<open>sha256 ''173635dced1daa09cb91138598a119457cd86ec15ff48260cb6dc624e3d8eb0ec2025-01-15T10:30:01.201Z{"amount":100}1'' =
     ''40d17acf570d1ed703c5b6b7f5bd1a66ea787456eeafb964e7b5effc802048b5''\<close>
  by code_simp

lemma hash_block2_constructed:
  \<open>sha256 ''22025-01-15T10:30:02.151Z{"amount":8}undefined'' =
     ''32df1aa7f2a32a415894df868e87caf042471f86e03eeba6d49ce836e472b263''\<close>
  by code_simp

lemma hash_block2_mined:
  \<open>sha256 ''200029254da8689613f076347a11fafc25ced7b2d414f1cbe240c561cafcb0b432025-01-15T10:30:02.151Z{"amount":8}1'' =
     ''00c7b3c382fef68e52c6013a3b023db2eb2980df8a234493657970578293c02a''\<close>
  by code_simp

lemma hash_block3_constructed:
  \<open>sha256 ''32025-01-15T10:30:03.677Z{"amount":10}undefined'' =
     ''67a2d5bb65caaae5348b7d472b8c518a269c633f41f5c015adb4c747bc38404e''\<close>
  by code_simp

lemma hash_block3_mined:
  \<open>sha256 ''300c7b3c382fef68e52c6013a3b023db2eb2980df8a234493657970578293c02a2025-01-15T10:30:03.677Z{"amount":10}1'' =
     ''00241bd5b80a83eed5a90495de7cdc351baa366a8959ab92e89d263a09bf3757''\<close>
  by code_simp

lemma hash_block2_unmined_constructed:
  \<open>sha256 ''22025-01-15T10:30:02.039Z{"amount":8}undefined'' =
     ''00840e9a753083513deab96928e783daca8ae6f16b0952f5007514e6e7d22237''\<close>
  by code_simp

lemma hash_block2_unmined_nonce0:
  \<open>sha256 ''200029254da8689613f076347a11fafc25ced7b2d414f1cbe240c561cafcb0b432025-01-15T10:30:02.039Z{"amount":8}0'' =
     ''bafeb680faa8cd0edafea2c929a42d6d8113331f5350a0ee509a4c16e0729ece''\<close>
  by code_simp

lemma hash_block3_late_constructed:
  \<open>sha256 ''32025-01-15T10:30:03.451Z{"amount":10}undefined'' =
     ''26421f6da231b6ed56f61da6fc15ad347fc62613ff6fc10bb9ef437e68989848''\<close>
  by code_simp

lemma hash_block3_late_mined:
  \<open>sha256 ''300840e9a753083513deab96928e783daca8ae6f16b0952f5007514e6e7d222372025-01-15T10:30:03.451Z{"amount":10}1'' =
     ''0034a88b86822cf55087613e1d8c9ee82509f1a92497d2672ff69b1eaf092eb7''\<close>
  by code_simp

lemma hash_tx_genesis:
  \<open>sha256 ''undefined02025-01-15T10:30:00.000Zundefinedundefined'' =
     ''f83eab8dc8ddfff2dd997504a99d82fc9c6134d962149abbe1038d74b25377ad''\<close>
  by code_simp

lemma hash_tx_block1_constructed:
  \<open>sha256 ''undefined2025-01-15T10:30:01.042Zundefinedundefined'' =
     ''a02d9f9adff220c6fe2ce75e8d4ea43395f4dbfd72ef0522e37fe0139a0084fe''\<close>
  by code_simp

lemma hash_tx_block1_mined:
  \<open>sha256 ''undefined2025-01-15T10:30:01.042Zundefined1'' =
     ''0041af2047311ab83bc51d9d9cef4852a5cc236240d9fe2268bb6b53a094027a''\<close>
  by code_simp

lemma hash_tx_block2_constructed:
  \<open>sha256 ''undefined2025-01-15T10:30:05.271Zundefinedundefined'' =
     ''1bf6fed7f35b038e97db87a3682a768a28d845915391935f99e148e1bd4710ff''\<close>
  by code_simp

lemma hash_tx_block2_mined:
  \<open>sha256 ''undefined2025-01-15T10:30:05.271Zundefined1'' =
     ''005b77dafd1007dbb90b05aba3eed41962cbafa175e379f11bbde9c19b2a698a''\<close>
  by code_simp


section \<open>Facts about the operations\<close>

lemma mineBlock_fields:
  "mineBlock SHA256 d b = Some b' \<Longrightarrow>
     index b' = index b \<and> timestamp b' = timestamp b \<and> data b' = data b \<and>
     transaction b' = transaction b \<and> prevHash b' = prevHash b"
proof (induction rule: mineBlock.raw_induct [rotated 1, consumes 1])
  case (1 mine SHA256 d b b')
  then show ?case by (auto simp: Let_def split: if_splits)
qed

subsection \<open>Mining pending transactions\<close>

lemma minePedingTransactions_Some:
  assumes "minePedingTransactions SHA256 ts a bc = Some bc'"
  obtains block where
    "chain bc' = chain bc @ [block]"
    "transaction block = Txs (pendingTransaction bc)"
    "prevHash block = []"
    "mineBlock SHA256 (difficulty bc) (Block_constructor_tx SHA256 ts (Txs (pendingTransaction bc)) []) = Some block"
    "pendingTransaction bc' = [\<lparr>fromAddress = None, toAddress = Some a, amount = miningReward bc\<rparr>]"
    "miningReward bc' = miningReward bc"
    "difficulty bc' = difficulty bc"
proof -
  from assms obtain block where
    m: "mineBlock SHA256 (difficulty bc) (Block_constructor_tx SHA256 ts (Txs (pendingTransaction bc)) []) = Some block"
    and bc': "bc' = bc\<lparr>chain := chain bc @ [block],
                   pendingTransaction := [\<lparr>fromAddress = None, toAddress = Some a, amount = miningReward bc\<rparr>]\<rparr>"
    by (auto simp: minePedingTransactions_def split: option.splits)
  from mineBlock_fields [OF m] have "transaction block = Txs (pendingTransaction bc)" "prevHash block = []"
    by (simp_all add: Block_constructor_tx_def Let_def)
  with m bc' that show thesis by simp
qed

subsection \<open>Scanning for a balance\<close>

lemma fold_applyCharacter: "fold (applyCharacter a) s bal = bal"
  by (induction s) (simp_all add: applyCharacter_def)

lemma scanBlocks_payload:
  "list_all hasPayload c \<Longrightarrow>
     scanBlocks a c bal = Inr (fold (applyTransaction a) (chainTransactions c) bal)"
proof (induction c arbitrary: bal)
  case Nil
  then show ?case by (simp add: chainTransactions_def)
next
  case (Cons b c)
  then show ?case
    by (cases "transaction b")
       (simp_all add: hasPayload_def chainTransactions_def transactionsOf_def fold_applyCharacter)
qed

lemma reachable_invariant:
  "reachable SHA256 P bc \<Longrightarrow>
     list_all hasPayload (chain bc) \<and> chain bc \<noteq> [] \<and>
     transaction (hd (chain bc)) = Text ''Genesis block'' \<and> miningReward bc = whole 100 \<and> difficulty bc = 2"
proof (induction rule: reachable.induct)
  case (fresh ts)
  show ?case
    by (simp add: TxBlockchain_constructor_def createGenesisBlock_tx_def Block_constructor_tx_def
        hasPayload_def Let_def)
next
  case (created bc tx)
  then show ?case by (simp add: createTransaction_def)
next
  case (mined bc ts a bc')
  from mined(2) obtain block where
    "chain bc' = chain bc @ [block]" "transaction block = Txs (pendingTransaction bc)"
    "miningReward bc' = miningReward bc" "difficulty bc' = difficulty bc"
    by (rule minePedingTransactions_Some)
  with mined(3) show ?case by (simp add: hasPayload_def)
qed

lemma chainTransactions_filter:
  "chainTransactions (filter holdsTransactions c) = chainTransactions c"
  by (induction c) (auto simp: chainTransactions_def holdsTransactions_def transactionsOf_def split: payload.splits)

lemma hasPayload_filter: "list_all hasPayload (filter holdsTransactions c)"
  by (induction c) (auto simp: holdsTransactions_def hasPayload_def split: payload.splits)


subsection \<open>Exact arithmetic\<close>

text \<open>
  Sums and differences of integers below \<open>2^53\<close> in absolute value are exact.
\<close>

lemma jsAdd_whole:
  "\<bar>x + y\<bar> < 9007199254740992 \<Longrightarrow> jsAdd (whole x) (whole y) = whole (x + y)"
  by (simp add: whole_def toDouble_def)

lemma jsSub_whole:
  "\<bar>x - y\<bar> < 9007199254740992 \<Longrightarrow> jsSub (whole x) (whole y) = whole (x - y)"
  by (simp add: whole_def jsSub_def toDouble_def)

lemma isWhole_units: "isWhole x \<Longrightarrow> x = whole (units x)"
  by (cases x) (simp_all add: isWhole_def units_def whole_def)

lemma applyTransaction_whole:
  assumes "isWhole (amount tx)" and "\<bar>b\<bar> + \<bar>units (amount tx)\<bar> < 9007199254740992"
  shows "applyTransaction a tx (whole b) = whole (b + contribution a tx)"
proof -
  define n where "n = units (amount tx)"
  from assms(1) have am: "amount tx = whole n"
    unfolding n_def by (rule isWhole_units)
  from assms(2) have "\<bar>b - n\<bar> < 9007199254740992" "\<bar>b + n\<bar> < 9007199254740992" "\<bar>b - n + n\<bar> < 9007199254740992"
    unfolding n_def by linarith+
  then show ?thesis
    by (simp add: applyTransaction_def contribution_def am Let_def jsAdd_whole jsSub_whole flip: n_def)
       (simp add: whole_def units_def)
qed

lemma abs_contribution: "\<bar>contribution a tx\<bar> \<le> \<bar>units (amount tx)\<bar>"
  by (simp add: contribution_def)

lemma fold_applyTransaction_whole:
  assumes "wholeAmounts txs" and "\<bar>b\<bar> + volume txs < 9007199254740992"
  shows "fold (applyTransaction a) txs (whole b) = whole (b + (\<Sum>tx\<leftarrow>txs. contribution a tx))"
  using assms
proof (induction txs arbitrary: b)
  case Nil
  then show ?case by simp
next
  case (Cons tx txs)
  have nonneg: "0 \<le> volume txs"
    by (auto simp: volume_def intro!: sum_list_nonneg)
  from Cons.prems have w: "isWhole (amount tx)" and ws: "wholeAmounts txs"
    and bound: "\<bar>b\<bar> + \<bar>units (amount tx)\<bar> + volume txs < 9007199254740992"
    by (simp_all add: wholeAmounts_def volume_def)
  from bound nonneg have "\<bar>b\<bar> + \<bar>units (amount tx)\<bar> < 9007199254740992" by linarith
  with w have step: "applyTransaction a tx (whole b) = whole (b + contribution a tx)"
    by (rule applyTransaction_whole)
  from bound abs_contribution [of a tx] have "\<bar>b + contribution a tx\<bar> + volume txs < 9007199254740992"
    by linarith
  from Cons.IH [OF ws this] step show ?case by (simp add: add.assoc)
qed

subsection \<open>Conservation\<close>

lemma sum_list_swap:
  "(\<Sum>a\<leftarrow>as. \<Sum>t\<leftarrow>ts. (f a t :: int)) = (\<Sum>t\<leftarrow>ts. \<Sum>a\<leftarrow>as. f a t)"
  by (induction ts) (simp_all add: sum_list_addf)

lemma sum_list_indicator:
  "distinct as \<Longrightarrow> (\<Sum>a\<leftarrow>as. if x = a then (v :: int) else 0) = (if x \<in> set as then v else 0)"
  by (induction as) auto

lemma sum_list_count:
  "(\<Sum>t\<leftarrow>ts. if Q t then (r :: int) else 0) = r * int (length (filter Q ts))"
  by (induction ts) (simp_all add: algebra_simps)

lemma sum_list_abs_le:
  "(\<And>t. \<bar>f t\<bar> \<le> g t) \<Longrightarrow> \<bar>\<Sum>t\<leftarrow>ts. (f t :: int)\<bar> \<le> (\<Sum>t\<leftarrow>ts. g t)"
proof (induction ts)
  case Nil
  then show ?case by simp
next
  case (Cons t ts)
  from Cons.prems have "\<bar>f t\<bar> \<le> g t" .
  moreover from Cons have "\<bar>\<Sum>t\<leftarrow>ts. f t\<bar> \<le> (\<Sum>t\<leftarrow>ts. g t)" by simp
  ultimately show ?case by simp
qed

lemma set_addresses:
  "set (addresses txs) = {a. a \<noteq> None \<and> (\<exists>tx \<in> set txs. a = fromAddress tx \<or> a = toAddress tx)}"
  by (auto simp: addresses_def)

lemma distinct_addresses: "distinct (addresses txs)"
  by (simp add: addresses_def)

lemma contribution_over_addresses:
  assumes "distinct as"
  shows "(\<Sum>a\<leftarrow>as. contribution a tx) =
     (if toAddress tx \<in> set as then units (amount tx) else 0)
       - (if fromAddress tx \<in> set as then units (amount tx) else 0)"
  unfolding contribution_def
  by (simp add: sum_list_subtractf sum_list_indicator [OF assms])

text \<open>The balances of distinct addresses never add up to more than the volume.\<close>

lemma partial_total_bound:
  assumes "distinct as"
  shows "\<bar>\<Sum>a\<leftarrow>as. \<Sum>tx\<leftarrow>txs. contribution a tx\<bar> \<le> volume txs"
proof -
  have "(\<Sum>a\<leftarrow>as. \<Sum>tx\<leftarrow>txs. contribution a tx) = (\<Sum>tx\<leftarrow>txs. \<Sum>a\<leftarrow>as. contribution a tx)"
    by (rule sum_list_swap)
  moreover have "\<bar>\<Sum>tx\<leftarrow>txs. \<Sum>a\<leftarrow>as. contribution a tx\<bar> \<le> (\<Sum>tx\<leftarrow>txs. \<bar>units (amount tx)\<bar>)"
    by (rule sum_list_abs_le) (simp add: contribution_over_addresses [OF assms])
  ultimately show ?thesis by (simp add: volume_def)
qed

lemma balance_whole:
  assumes "list_all hasPayload (chain bc)"
    and "wholeAmounts (chainTransactions (chain bc))"
    and "volume (chainTransactions (chain bc)) < 9007199254740992"
  shows "getBalanceOfAddress bc a = Inr (whole (\<Sum>tx\<leftarrow>chainTransactions (chain bc). contribution a tx))"
  using fold_applyTransaction_whole [OF assms(2), of 0 a] assms(3)
  by (simp add: getBalanceOfAddress_def scanBlocks_payload [OF assms(1)])

lemma sumBalances_whole:
  assumes "list_all hasPayload (chain bc)"
    and "wholeAmounts (chainTransactions (chain bc))"
    and "volume (chainTransactions (chain bc)) < 9007199254740992"
    and "distinct as"
  shows "sumBalances bc as =
     Inr (whole (\<Sum>a\<leftarrow>as. \<Sum>tx\<leftarrow>chainTransactions (chain bc). contribution a tx))"
  using assms(4)
proof (induction as)
  case Nil
  then show ?case by simp
next
  case (Cons a as)
  from Cons.prems have d: "distinct as" by simp
  from partial_total_bound [OF Cons.prems, of "chainTransactions (chain bc)"] assms(3)
  have "\<bar>(\<Sum>tx\<leftarrow>chainTransactions (chain bc). contribution a tx)
      + (\<Sum>a\<leftarrow>as. \<Sum>tx\<leftarrow>chainTransactions (chain bc). contribution a tx)\<bar> < 9007199254740992"
    by simp
  then show ?case
    by (simp add: Cons.IH [OF d] balance_whole [OF assms(1,2,3)] jsAdd_whole)
qed

lemma total_of_transaction:
  assumes "tx \<in> set txs" and "transferOrReward r tx"
  shows "(\<Sum>a\<leftarrow>addresses txs. contribution a tx) = (if isReward r tx then units r else 0)"
proof -
  note split = contribution_over_addresses [OF distinct_addresses [of txs], of tx]
  from assms(2) consider (p) "isPeerToPeer tx" | (r) "isReward r tx"
    by (auto simp: transferOrReward_def)
  then show ?thesis
  proof cases
    case p
    with assms(1) have "toAddress tx \<in> set (addresses txs)" "fromAddress tx \<in> set (addresses txs)" "\<not> isReward r tx"
      by (auto simp: set_addresses isPeerToPeer_def isReward_def)
    with split show ?thesis by simp
  next
    case r
    with assms(1) have "toAddress tx \<in> set (addresses txs)" "fromAddress tx \<notin> set (addresses txs)" "amount tx = r"
      by (auto simp: set_addresses isReward_def)
    with split r show ?thesis by simp
  qed
qed

lemma grand_total:
  assumes "list_all (transferOrReward r) txs"
  shows "(\<Sum>a\<leftarrow>addresses txs. \<Sum>tx\<leftarrow>txs. contribution a tx)
     = units r * int (length (filter (isReward r) txs))"
proof -
  have "(\<Sum>a\<leftarrow>addresses txs. \<Sum>tx\<leftarrow>txs. contribution a tx)
      = (\<Sum>tx\<leftarrow>txs. \<Sum>a\<leftarrow>addresses txs. contribution a tx)"
    by (rule sum_list_swap)
  also have "\<dots> = (\<Sum>tx\<leftarrow>txs. if isReward r tx then units r else 0)"
  proof (rule arg_cong [where f = sum_list], rule map_cong [OF refl])
    fix tx assume "tx \<in> set txs"
    moreover from this assms have "transferOrReward r tx" by (simp add: list_all_iff)
    ultimately show "(\<Sum>a\<leftarrow>addresses txs. contribution a tx) = (if isReward r tx then units r else 0)"
      by (rule total_of_transaction)
  qed
  also have "\<dots> = units r * int (length (filter (isReward r) txs))"
    by (rule sum_list_count)
  finally show ?thesis .
qed

lemma reachable_transfers:
  "reachable SHA256 isPeerToPeer bc \<Longrightarrow>
     list_all (transferOrReward (whole 100)) (chainTransactions (chain bc)) \<and>
     list_all (transferOrReward (whole 100)) (pendingTransaction bc)"
proof (induction rule: reachable.induct)
  case (fresh ts)
  show ?case
    by (simp add: TxBlockchain_constructor_def createGenesisBlock_tx_def Block_constructor_tx_def
        chainTransactions_def transactionsOf_def Let_def)
next
  case (created bc tx)
  then show ?case by (simp add: createTransaction_def transferOrReward_def)
next
  case (mined bc ts a bc')
  from mined(1) have r: "miningReward bc = whole 100" by (simp add: reachable_invariant)
  from mined(2) obtain block where
    "chain bc' = chain bc @ [block]" "transaction block = Txs (pendingTransaction bc)"
    "pendingTransaction bc' = [\<lparr>fromAddress = None, toAddress = Some a, amount = miningReward bc\<rparr>]"
    by (rule minePedingTransactions_Some)
  with mined(3) r show ?case
    by (simp add: chainTransactions_def transactionsOf_def transferOrReward_def isReward_def)
qed

lemma mineBlock_prefix:
  "mineBlock SHA256 d b = Some b' \<Longrightarrow> take d (hash b') = replicate d CHR ''0''"
proof (induction rule: mineBlock.raw_induct [rotated 1, consumes 1])
  case (1 mine SHA256 d b b')
  then show ?case by (auto split: if_splits)
qed

lemma mineBlock_result:
  "mineBlock SHA256 d b = Some b' \<Longrightarrow> b' = b \<or> hash b' = calculateHash SHA256 b'"
proof (induction rule: mineBlock.raw_induct [rotated 1, consumes 1])
  case (1 mine SHA256 d b b')
  show ?case
  proof (cases "take d (hash b) = replicate d CHR ''0''")
    case True
    with 1(2) show ?thesis by simp
  next
    case False
    define c where "c = (let this = b\<lparr>nonce := increment (nonce b)\<rparr> in this\<lparr>hash := calculateHash SHA256 this\<rparr>)"
    have cc: "hash c = calculateHash SHA256 c"
      by (simp add: c_def calculateHash_def hashInput_def Let_def)
    from False 1(2) have "mine SHA256 d c = Some b'"
      by (simp add: c_def)
    from 1(1) [OF this] cc show ?thesis by auto
  qed
qed

subsection \<open>Validation\<close>

lemma validateFrom_None:
  "validateFrom SHA256 c i = None \<Longrightarrow> i \<le> j \<Longrightarrow> j < length c \<Longrightarrow>
     hash (c ! j) = calculateHash SHA256 (c ! j) \<and> prevHash (c ! j) = hash (c ! (j - 1))"
proof (induction SHA256 c i rule: validateFrom.induct)
  case (1 SHA256 c i)
  from 1(3,4) have i: "i < length c" by simp
  from 1(2) i have h: "hash (c ! i) = calculateHash SHA256 (c ! i)"
    and l: "prevHash (c ! i) = hash (c ! (i - 1))"
    and r: "validateFrom SHA256 c (i + 1) = None"
    by (auto simp: validateFrom.simps [of SHA256 c i] split: if_splits)
  show ?case
  proof (cases "j = i")
    case True
    with h l show ?thesis by simp
  next
    case False
    with 1(3) have "i + 1 \<le> j" by simp
    from 1(1) [OF i h l r this 1(4)] show ?thesis .
  qed
qed

lemma validateFrom_same:
  assumes "length c' = length c"
    and "\<And>k. k < length c \<Longrightarrow> hash (c' ! k) = hash (c ! k) \<and> prevHash (c' ! k) = prevHash (c ! k)
           \<and> calculateHash SHA256 (c' ! k) = calculateHash SHA256 (c ! k)"
  shows "validateFrom SHA256 c' i = validateFrom SHA256 c i"
  using assms
proof (induction SHA256 c i rule: validateFrom.induct)
  case (1 SHA256 c i)
  show ?case
  proof (cases "i < length c")
    case True
    then have "i - 1 < length c" by simp
    with True 1(3) have same: "hash (c' ! i) = hash (c ! i)" "prevHash (c' ! i) = prevHash (c ! i)"
      "calculateHash SHA256 (c' ! i) = calculateHash SHA256 (c ! i)" "hash (c' ! (i - 1)) = hash (c ! (i - 1))"
      by simp_all
    show ?thesis
    proof (cases "hash (c ! i) = calculateHash SHA256 (c ! i) \<and> prevHash (c ! i) = hash (c ! (i - 1))")
      case ok: True
      then have "validateFrom SHA256 c' (i + 1) = validateFrom SHA256 c (i + 1)"
        using 1(1) [OF True _ _ 1(2)] 1(3) by blast
      with True ok same 1(2) show ?thesis
        by (simp add: validateFrom.simps [of SHA256 c' i] validateFrom.simps [of SHA256 c i])
    next
      case False
      with True same 1(2) show ?thesis
        by (auto simp add: validateFrom.simps [of SHA256 c' i] validateFrom.simps [of SHA256 c i])
    qed
  next
    case False
    with 1(2) show ?thesis
      by (simp add: validateFrom.simps [of SHA256 c' i] validateFrom.simps [of SHA256 c i])
  qed
qed

lemma calculateHash_transaction_update:
  "calculateHash SHA256 (b\<lparr>transaction := p\<rparr>) = calculateHash SHA256 b"
  by (simp add: calculateHash_def hashInput_def)

lemma chainReport_tamperPayload:
  "chainReport SHA256 (tamperPayload i p bc) = chainReport SHA256 bc"
proof -
  have nth: "(chain bc)[i := (chain bc ! i)\<lparr>transaction := p\<rparr>] ! k =
      (if k = i then (chain bc ! k)\<lparr>transaction := p\<rparr> else chain bc ! k)" if "k < length (chain bc)" for k
    using that by (cases "i < length (chain bc)") (auto simp: nth_list_update)
  have "validateFrom SHA256 ((chain bc)[i := (chain bc ! i)\<lparr>transaction := p\<rparr>]) 1 = validateFrom SHA256 (chain bc) 1"
    by (rule validateFrom_same) (simp_all add: nth calculateHash_transaction_update)
  then show ?thesis by (simp add: chainReport_def tamperPayload_def)
qed

lemma reachable_links:
  "reachable sha256 P bc \<Longrightarrow>
     chain bc \<noteq> [] \<and> hash (hd (chain bc)) \<noteq> [] \<and> list_all (\<lambda>b. prevHash b = []) (tl (chain bc))"
proof (induction rule: reachable.induct)
  case (fresh ts)
  show ?case
    by (simp add: TxBlockchain_constructor_def createGenesisBlock_tx_def Block_constructor_tx_def
        Let_def sha256_not_empty)
next
  case (created bc tx)
  then show ?case by (simp add: createTransaction_def)
next
  case (mined bc ts a bc')
  from mined(2) obtain block where "chain bc' = chain bc @ [block]" "prevHash block = []"
    by (rule minePedingTransactions_Some)
  with mined(3) show ?case by simp
qed

lemma ledger_never_valid:
  assumes "reachable sha256 P bc" and "1 < length (chain bc)"
  shows "chainReport sha256 bc = Some (HashMismatch 1) \<or> chainReport sha256 bc = Some (LinkMismatch 1)"
proof -
  from reachable_links [OF assms(1)] assms(2) obtain g b rest where
    c: "chain bc = g # b # rest" and g: "hash g \<noteq> []" and b: "prevHash b = []"
    by (cases "chain bc"; cases "tl (chain bc)") auto
  have "validateFrom sha256 (g # b # rest) 1 = Some (HashMismatch 1)
      \<or> validateFrom sha256 (g # b # rest) 1 = Some (LinkMismatch 1)"
    by (subst validateFrom.simps, subst (2) validateFrom.simps) (use g b in auto)
  with c show ?thesis by (simp add: chainReport_def)
qed

text \<open>
  In \<^verbatim>\<open>index.js\<close> the data of a block is hashed: on a chain that passes the validation,
  new data at index \<open>j\<close> with a new digest is reported as a hash mismatch at \<open>j\<close>.
\<close>

lemma validateFrom_HashMismatch:
  assumes "i \<le> j" and "j < length c"
    and "\<And>k. i \<le> k \<Longrightarrow> k < j \<Longrightarrow>
           hash (c ! k) = calculateHash SHA256 (c ! k) \<and> prevHash (c ! k) = hash (c ! (k - 1))"
    and "hash (c ! j) \<noteq> calculateHash SHA256 (c ! j)"
  shows "validateFrom SHA256 c i = Some (HashMismatch j)"
  using assms
proof (induction SHA256 c i rule: validateFrom.induct)
  case (1 SHA256 c i)
  from 1(2,3) have i: "i < length c" by simp
  show ?case
  proof (cases "i = j")
    case True
    with 1(3,5) show ?thesis by (subst validateFrom.simps) simp
  next
    case False
    with 1(2) have lt: "i < j" by simp
    with 1(4) [of i] have ok: "hash (c ! i) = calculateHash SHA256 (c ! i)" "prevHash (c ! i) = hash (c ! (i - 1))"
      by simp_all
    from lt have "i + 1 \<le> j" by simp
    from 1(1) [OF i ok this 1(3) _ 1(5)] 1(4)
    have "validateFrom SHA256 c (i + 1) = Some (HashMismatch j)" by simp
    with i ok show ?thesis by (subst validateFrom.simps) simp
  qed
qed

lemma tampered_data_detected:
  assumes valid: "validateFrom SHA256 c 1 = None"
    and j: "1 \<le> j" "j < length c"
    and new: "calculateHash SHA256 ((c ! j)\<lparr>data := d\<rparr>) \<noteq> hash (c ! j)"
  shows "validateFrom SHA256 (c[j := (c ! j)\<lparr>data := d\<rparr>]) 1 = Some (HashMismatch j)"
proof (rule validateFrom_HashMismatch)
  show "1 \<le> j" by fact
  show "j < length (c[j := (c ! j)\<lparr>data := d\<rparr>])" using j by simp
  show "hash (c[j := (c ! j)\<lparr>data := d\<rparr>] ! j) \<noteq> calculateHash SHA256 (c[j := (c ! j)\<lparr>data := d\<rparr>] ! j)"
    using j new by simp
  fix k assume k: "1 \<le> k" "k < j"
  with j have "k < length c" by simp
  from validateFrom_None [OF valid k(1) this] k
  show "hash (c[j := (c ! j)\<lparr>data := d\<rparr>] ! k) = calculateHash SHA256 (c[j := (c ! j)\<lparr>data := d\<rparr>] ! k)
    \<and> prevHash (c[j := (c ! j)\<lparr>data := d\<rparr>] ! k) = hash (c[j := (c ! j)\<lparr>data := d\<rparr>] ! (k - 1))"
    by simp
qed

subsection \<open>Adding blocks, and the two scenarios of the README\<close>

lemma addBlock_Some:
  assumes "addBlock SHA256 newBlock bc = Some (Inr bc')"
  obtains mined where
    "chain bc \<noteq> []"
    "chain bc' = chain bc @ [mined]"
    "prevHash mined = hash (last (chain bc))"
    "difficulty bc' = difficulty bc"
proof -
  from assms obtain latest mined where
    l: "getLatestBlock bc = Some latest"
    and m: "mineBlock SHA256 (difficulty bc) (newBlock\<lparr>prevHash := hash latest\<rparr>) = Some mined"
    and bc': "bc' = bc\<lparr>chain := chain bc @ [mined]\<rparr>"
    by (auto simp: addBlock_def split: option.splits)
  from l have ne: "chain bc \<noteq> []" and latest: "latest = last (chain bc)"
    by (auto simp: getLatestBlock_def split: if_splits)
  from mineBlock_fields [OF m] latest have "prevHash mined = hash (last (chain bc))" by simp
  with ne bc' that show thesis by simp
qed

lemma scenarioA_chain:
  assumes "scenarioA SHA256 t0 t1 t2 t3 = Some (Inr bc)"
  obtains b1 b2 b3 where
    "chain bc = [createGenesisBlock SHA256 t0, b1, b2, b3]"
    "prevHash b1 = hash (createGenesisBlock SHA256 t0)"
    "prevHash b2 = hash b1"
    "prevHash b3 = hash b2"
proof -
  from assms obtain bc1 bc2 where
    1: "addBlock SHA256 (Block_constructor SHA256 1 t1 (amountData 4) []) (Blockchain_constructor SHA256 t0) = Some (Inr bc1)"
    and 2: "addBlock SHA256 (Block_constructor SHA256 2 t2 (amountData 8) []) bc1 = Some (Inr bc2)"
    and 3: "addBlock SHA256 (Block_constructor SHA256 3 t3 (amountData 10) []) bc2 = Some (Inr bc)"
    by (auto simp: scenarioA_def split: option.splits sum.splits)
  from 1 obtain b1 where b1: "chain bc1 = [createGenesisBlock SHA256 t0, b1]"
    "prevHash b1 = hash (createGenesisBlock SHA256 t0)"
    by (rule addBlock_Some) (simp add: Blockchain_constructor_def)
  from 2 obtain b2 where b2: "chain bc2 = chain bc1 @ [b2]" "prevHash b2 = hash (last (chain bc1))"
    by (rule addBlock_Some)
  from 3 obtain b3 where b3: "chain bc = chain bc2 @ [b3]" "prevHash b3 = hash (last (chain bc2))"
    by (rule addBlock_Some)
  from b1 b2 b3 that show thesis by simp
qed

lemma scenarioB_report:
  assumes "scenarioA SHA256 t0 t1 t2 t3 = Some (Inr bc)"
  shows "length (chain bc) = 4"
    and "hash (chain bc ! 2) \<noteq> calculateHash SHA256 (chain bc ! 2) \<Longrightarrow>
      chainReport SHA256 (scenarioB SHA256 bc) = Some (HashMismatch 2)"
    and "hash (chain bc ! 2) = calculateHash SHA256 (chain bc ! 2) \<Longrightarrow>
      calculateHash SHA256 ((chain bc ! 1)\<lparr>data := Some (amountData 100)\<rparr>) \<noteq> hash (chain bc ! 1) \<Longrightarrow>
      chainReport SHA256 (scenarioB SHA256 bc) = Some (LinkMismatch 2)"
proof -
  from assms obtain b1 b2 b3 where
    c: "chain bc = [createGenesisBlock SHA256 t0, b1, b2, b3]"
    and l1: "prevHash b1 = hash (createGenesisBlock SHA256 t0)"
    and l2: "prevHash b2 = hash b1"
    by (rule scenarioA_chain)
  define g where "g = createGenesisBlock SHA256 t0"
  define b1' where "b1' = b1\<lparr>data := Some (amountData 100), hash := calculateHash SHA256 (b1\<lparr>data := Some (amountData 100)\<rparr>)\<rparr>"
  have B: "chain (scenarioB SHA256 bc) = [g, b1', b2, b3]"
    by (simp add: scenarioB_def c Let_def b1'_def g_def)
  have h1: "hash b1' = calculateHash SHA256 b1'"
    by (simp add: b1'_def calculateHash_def hashInput_def)
  have p1: "prevHash b1' = hash g"
    by (simp add: b1'_def l1 g_def)
  have step1: "validateFrom SHA256 [g, b1', b2, b3] 1 = validateFrom SHA256 [g, b1', b2, b3] 2"
    by (subst validateFrom.simps) (simp add: h1 p1 numeral_2_eq_2)
  show "length (chain bc) = 4" by (simp add: c)
  show "chainReport SHA256 (scenarioB SHA256 bc) = Some (HashMismatch 2)"
    if "hash (chain bc ! 2) \<noteq> calculateHash SHA256 (chain bc ! 2)"
  proof -
    from that c have "hash b2 \<noteq> calculateHash SHA256 b2" by simp
    then have "validateFrom SHA256 [g, b1', b2, b3] 2 = Some (HashMismatch 2)"
      by (subst validateFrom.simps) simp
    with step1 B show ?thesis by (simp add: chainReport_def)
  qed
  show "chainReport SHA256 (scenarioB SHA256 bc) = Some (LinkMismatch 2)"
    if "hash (chain bc ! 2) = calculateHash SHA256 (chain bc ! 2)"
      and "calculateHash SHA256 ((chain bc ! 1)\<lparr>data := Some (amountData 100)\<rparr>) \<noteq> hash (chain bc ! 1)"
  proof -
    from that c have h2: "hash b2 = calculateHash SHA256 b2"
      and "calculateHash SHA256 (b1\<lparr>data := Some (amountData 100)\<rparr>) \<noteq> hash b1" by simp_all
    then have "prevHash b2 \<noteq> hash b1'" by (simp add: l2 b1'_def)
    with h2 have "validateFrom SHA256 [g, b1', b2, b3] 2 = Some (LinkMismatch 2)"
      by (subst validateFrom.simps) simp
    with step1 B show ?thesis by (simp add: chainReport_def)
  qed
qed

lemma hash_at_construction:
  "hash (Block_constructor SHA256 i ts d p) =
     SHA256 (numToString i @ p @ ts @ stringify d @ ''undefined'')"
  "calculateHash SHA256 (Block_constructor SHA256 i ts d p) =
     SHA256 (numToString i @ p @ ts @ stringify d @ ''0'')"
  "nonce (Block_constructor SHA256 i ts d p) = 0"
  by (simp_all add: Block_constructor_def calculateHash_def hashInput_def Let_def indexToString_def
      JSON_stringify_def numToString.simps [of 0] digit_char_def)

section \<open>The runs, evaluated\<close>

lemmas print_defs = indexToString_def JSON_stringify_def amountData_def quoteJSON_def escapeChar_def
  intToString_def numToString.simps digit_char_def hashInput_def

lemmas clock_defs = clock_genesis_def clock_block1_def clock_block2_def clock_block3_def
  clock_block2_unmined_def clock_block3_late_def clock_tx_block1_def clock_tx_block2_def

lemmas block_defs = genesis_block_def block1_mined_def block2_mined_def block3_mined_def
  block2_unmined_def block3_late_def tx_genesis_def tx_block1_def tx_block2_def

lemma replicate_two: "replicate 2 x = [x, x]"
  by (simp add: numeral_2_eq_2)

lemmas mine_defs = mineBlock.simps Block_constructor_def Block_constructor_tx_def calculateHash_def
  increment_def Let_def replicate_two

lemma genesis_eval: "createGenesisBlock sha256 clock_genesis = genesis_block"
  by (simp add: createGenesisBlock_def Block_constructor_def print_defs clock_defs block_defs Let_def hash_genesis)

lemma mine_block1:
  "mineBlock sha256 2 ((Block_constructor sha256 1 clock_block1 (amountData 4) [])\<lparr>prevHash := hash genesis_block\<rparr>)
     = Some block1_mined"
  by (simp add: mine_defs print_defs clock_defs block_defs hash_block1_constructed hash_block1_mined)

lemma mine_block2:
  "mineBlock sha256 2 ((Block_constructor sha256 2 clock_block2 (amountData 8) [])\<lparr>prevHash := hash block1_mined\<rparr>)
     = Some block2_mined"
  by (simp add: mine_defs print_defs clock_defs block_defs hash_block2_constructed hash_block2_mined)

lemma mine_block3:
  "mineBlock sha256 2 ((Block_constructor sha256 3 clock_block3 (amountData 10) [])\<lparr>prevHash := hash block2_mined\<rparr>)
     = Some block3_mined"
  by (simp add: mine_defs print_defs clock_defs block_defs hash_block3_constructed hash_block3_mined)

lemma mine_block2_unmined:
  "mineBlock sha256 2 ((Block_constructor sha256 2 clock_block2_unmined (amountData 8) [])\<lparr>prevHash := hash block1_mined\<rparr>)
     = Some block2_unmined"
  by (simp add: mine_defs print_defs clock_defs block_defs hash_block2_unmined_constructed)

lemma mine_block3_late:
  "mineBlock sha256 2 ((Block_constructor sha256 3 clock_block3_late (amountData 10) [])\<lparr>prevHash := hash block2_unmined\<rparr>)
     = Some block3_late"
  by (simp add: mine_defs print_defs clock_defs block_defs hash_block3_late_constructed hash_block3_late_mined)

lemma add_block1:
  "addBlock sha256 (Block_constructor sha256 1 clock_block1 (amountData 4) []) (Blockchain_constructor sha256 clock_genesis)
     = Some (Inr \<lparr>chain = [genesis_block, block1_mined], difficulty = 2\<rparr>)"
  by (simp add: addBlock_def getLatestBlock_def Blockchain_constructor_def genesis_eval mine_block1 del: One_nat_def)

lemma add_block2:
  "addBlock sha256 (Block_constructor sha256 2 clock_block2 (amountData 8) [])
       \<lparr>chain = [genesis_block, block1_mined], difficulty = 2\<rparr>
     = Some (Inr \<lparr>chain = [genesis_block, block1_mined, block2_mined], difficulty = 2\<rparr>)"
  by (simp add: addBlock_def getLatestBlock_def mine_block2)

lemma add_block3:
  "addBlock sha256 (Block_constructor sha256 3 clock_block3 (amountData 10) [])
       \<lparr>chain = [genesis_block, block1_mined, block2_mined], difficulty = 2\<rparr>
     = Some (Inr chain_typical)"
  by (simp add: addBlock_def getLatestBlock_def mine_block3 chain_typical_def)

lemma add_block2_unmined:
  "addBlock sha256 (Block_constructor sha256 2 clock_block2_unmined (amountData 8) [])
       \<lparr>chain = [genesis_block, block1_mined], difficulty = 2\<rparr>
     = Some (Inr \<lparr>chain = [genesis_block, block1_mined, block2_unmined], difficulty = 2\<rparr>)"
  by (simp add: addBlock_def getLatestBlock_def mine_block2_unmined)

lemma add_block3_late:
  "addBlock sha256 (Block_constructor sha256 3 clock_block3_late (amountData 10) [])
       \<lparr>chain = [genesis_block, block1_mined, block2_unmined], difficulty = 2\<rparr>
     = Some (Inr chain_unmined)"
  by (simp add: addBlock_def getLatestBlock_def mine_block3_late chain_unmined_def)

lemma scenarioA_typical:
  "scenarioA sha256 clock_genesis clock_block1 clock_block2 clock_block3 = Some (Inr chain_typical)"
  by (simp only: scenarioA_def add_block1 add_block2 add_block3 option.case sum.case)

lemma scenarioA_unmined:
  "scenarioA sha256 clock_genesis clock_block1 clock_block2_unmined clock_block3_late = Some (Inr chain_unmined)"
  by (simp only: scenarioA_def add_block1 add_block2_unmined add_block3_late option.case sum.case)

lemma calculateHash_hash_update: "calculateHash SHA256 (b\<lparr>hash := h\<rparr>) = calculateHash SHA256 b"
  by (simp add: calculateHash_def hashInput_def)

lemma calc_block1: "calculateHash sha256 block1_mined = hash block1_mined"
  by (simp add: calculateHash_def print_defs clock_defs block_defs hash_block1_mined)

lemma calc_block2: "calculateHash sha256 block2_mined = hash block2_mined"
  by (simp add: calculateHash_def print_defs clock_defs block_defs hash_block2_mined)

lemma calc_block3: "calculateHash sha256 block3_mined = hash block3_mined"
  by (simp add: calculateHash_def print_defs clock_defs block_defs hash_block3_mined)

lemma calc_block2_unmined:
  "calculateHash sha256 block2_unmined = ''bafeb680faa8cd0edafea2c929a42d6d8113331f5350a0ee509a4c16e0729ece''"
  by (simp add: calculateHash_def print_defs clock_defs block_defs hash_block2_unmined_nonce0)

lemma calc_block1_tampered:
  "calculateHash sha256 (block1_mined\<lparr>data := Some (amountData 100)\<rparr>) =
     ''40d17acf570d1ed703c5b6b7f5bd1a66ea787456eeafb964e7b5effc802048b5''"
  by (simp add: calculateHash_def print_defs clock_defs block_defs hash_block1_tampered)

lemma typical_valid: "chainReport sha256 chain_typical = None"
  by (simp add: chainReport_def chain_typical_def validateFrom.simps calc_block1 calc_block2 calc_block3)
     (simp add: block_defs)

lemma typical_tampered: "chainReport sha256 (scenarioB sha256 chain_typical) = Some (LinkMismatch 2)"
  by (simp add: chainReport_def scenarioB_def chain_typical_def validateFrom.simps Let_def
      calc_block1_tampered calc_block2 calculateHash_hash_update)
     (simp add: block_defs)

lemma unmined_invalid: "chainReport sha256 chain_unmined = Some (HashMismatch 2)"
  by (simp add: chainReport_def chain_unmined_def validateFrom.simps calc_block1 calc_block2_unmined)
     (simp add: block_defs)

lemma unmined_tampered: "chainReport sha256 (scenarioB sha256 chain_unmined) = Some (HashMismatch 2)"
  by (simp add: chainReport_def scenarioB_def chain_unmined_def validateFrom.simps Let_def
      calc_block1_tampered calc_block2_unmined calculateHash_hash_update)
     (simp add: block_defs)

subsection \<open>The transaction program\<close>

lemma genesis_tx_eval: "createGenesisBlock_tx sha256 clock_genesis = tx_genesis"
  by (simp add: createGenesisBlock_tx_def Block_constructor_tx_def print_defs clock_defs block_defs Let_def
      hash_tx_genesis)

lemma mine_tx_block1:
  "mineBlock sha256 2 (Block_constructor_tx sha256 clock_tx_block1 p []) = Some (tx_block1 p)"
  by (simp add: mine_defs print_defs clock_defs block_defs hash_tx_block1_constructed hash_tx_block1_mined)

lemma mine_tx_block2:
  "mineBlock sha256 2 (Block_constructor_tx sha256 clock_tx_block2 p []) = Some (tx_block2 p)"
  by (simp add: mine_defs print_defs clock_defs block_defs hash_tx_block2_constructed hash_tx_block2_mined)

lemma scenarioMine_eval: "scenarioMine sha256 clock_genesis clock_tx_block1 = Some ledger_mined"
  by (simp add: scenarioMine_def minePedingTransactions_def TxBlockchain_constructor_def genesis_tx_eval
      mine_tx_block1 ledger_mined_def reward_def)

lemma scenarioC_eval: "scenarioC sha256 clock_genesis clock_tx_block1 = Some ledgerC"
  by (simp add: scenarioC_def scenarioC_pending_def minePedingTransactions_def createTransaction_def
      TxBlockchain_constructor_def genesis_tx_eval mine_tx_block1 ledgerC_def reward_def)

lemma scenarioD_eval: "scenarioD sha256 clock_genesis clock_tx_block1 clock_tx_block2 = Some ledgerD"
  by (simp add: scenarioD_def scenarioC_eval)
     (simp add: ledgerC_def ledgerD_def minePedingTransactions_def mine_tx_block2 reward_def)

lemma scenarioBig_eval: "scenarioBig sha256 clock_genesis clock_tx_block1 = Some ledgerBig"
  by (simp add: scenarioBig_def minePedingTransactions_def createTransaction_def
      TxBlockchain_constructor_def genesis_tx_eval mine_tx_block1 ledgerBig_def reward_def)

lemma scenarioFractions_eval: "scenarioFractions sha256 clock_genesis clock_tx_block1 = Some ledgerFractions"
  by (simp add: scenarioFractions_def minePedingTransactions_def createTransaction_def
      TxBlockchain_constructor_def genesis_tx_eval mine_tx_block1 ledgerFractions_def reward_def)

lemmas number_defs = whole_def jsSub_def toDouble_def roundShift_def Let_def

lemma bitLength_numeral [simp]:
  "bitLength 0 = 0"
  "bitLength 1 = 1"
  "bitLength (numeral (Num.Bit0 k)) = 1 + bitLength (numeral k)"
  "bitLength (numeral (Num.Bit1 k)) = 1 + bitLength (numeral k)"
  by (subst bitLength.simps, simp)+

lemma bits_big:
  "bitLength 9007199254740992 = 54"
  "bitLength 9007199254740993 = 54"
  by simp_all

text \<open>
  Sums of numbers, evaluated: \<^verbatim>\<open>0.1 + 0.2\<close> is \<^verbatim>\<open>0.30000000000000004\<close>; \<open>2^53 + 1\<close> is \<open>2^53\<close>
  and \<open>2^53 + 3\<close> is \<open>2^53 + 4\<close>, a tie going to the even neighbour; the largest double
  added to itself is \<^verbatim>\<open>Infinity\<close>.
\<close>

lemma jsAdd_tenth_fifth: "jsAdd tenth fifth = Finite 5404319552844596 (- 54)"
  by (simp add: tenth_def fifth_def number_defs)

lemma jsAdd_ties:
  "jsAdd (whole 9007199254740992) (whole 1) = Finite 4503599627370496 1"
  "jsAdd (whole 9007199254740992) (whole 3) = Finite 4503599627370498 1"
  by (simp_all add: number_defs)

lemma jsAdd_overflow: "jsAdd (Finite 9007199254740991 971) (Finite 9007199254740991 971) = PosInfinity"
  by (simp add: number_defs)

text \<open>
  In the run \<open>scenarioFractions\<close> the balances of A, B and C are \<^verbatim>\<open>-0.1\<close>,
  \<^verbatim>\<open>0.30000000000000004\<close> and \<^verbatim>\<open>-0.2\<close>, and they add up to \<open>2^-55\<close>.
\<close>

lemma fractions_not_conserved:
  "list_all isPeerToPeer (chainTransactions (chain ledgerFractions))"
  "addresses (chainTransactions (chain ledgerFractions)) = [Some ''A'', Some ''C'', Some ''B'']"
  "getBalanceOfAddress ledgerFractions (Some ''A'') = Inr (Finite (- 3602879701896397) (- 55))"
  "getBalanceOfAddress ledgerFractions (Some ''B'') = Inr (Finite 5404319552844596 (- 54))"
  "getBalanceOfAddress ledgerFractions (Some ''C'') = Inr (Finite (- 3602879701896397) (- 54))"
  "sumBalances ledgerFractions (addresses (chainTransactions (chain ledgerFractions))) = Inr (Finite 1 (- 55))"
proof -
  have txs: "chainTransactions (chain ledgerFractions) =
      [\<lparr>fromAddress = Some ''A'', toAddress = Some ''B'', amount = tenth\<rparr>,
       \<lparr>fromAddress = Some ''C'', toAddress = Some ''B'', amount = fifth\<rparr>]"
    by (simp add: ledgerFractions_def block_defs chainTransactions_def transactionsOf_def)
  have p: "list_all hasPayload (chain ledgerFractions)"
    by (simp add: ledgerFractions_def block_defs hasPayload_def)
  show "list_all isPeerToPeer (chainTransactions (chain ledgerFractions))"
    by (simp add: txs isPeerToPeer_def)
  show a: "addresses (chainTransactions (chain ledgerFractions)) = [Some ''A'', Some ''C'', Some ''B'']"
    by (simp add: txs addresses_def)
  show bA: "getBalanceOfAddress ledgerFractions (Some ''A'') = Inr (Finite (- 3602879701896397) (- 55))"
    by (simp add: getBalanceOfAddress_def scanBlocks_payload [OF p] txs applyTransaction_def
        tenth_def fifth_def number_defs)
  show bB: "getBalanceOfAddress ledgerFractions (Some ''B'') = Inr (Finite 5404319552844596 (- 54))"
    by (simp add: getBalanceOfAddress_def scanBlocks_payload [OF p] txs applyTransaction_def
        tenth_def fifth_def number_defs)
  show bC: "getBalanceOfAddress ledgerFractions (Some ''C'') = Inr (Finite (- 3602879701896397) (- 54))"
    by (simp add: getBalanceOfAddress_def scanBlocks_payload [OF p] txs applyTransaction_def
        tenth_def fifth_def number_defs)
  show "sumBalances ledgerFractions (addresses (chainTransactions (chain ledgerFractions))) = Inr (Finite 1 (- 55))"
    by (simp add: a bA bB bC number_defs)
qed

lemma calc_tx_block1: "calculateHash sha256 (tx_block1 p) = hash (tx_block1 p)"
  by (simp add: calculateHash_def print_defs clock_defs block_defs hash_tx_block1_mined)

lemma calc_tx_block2: "calculateHash sha256 (tx_block2 p) = hash (tx_block2 p)"
  by (simp add: calculateHash_def print_defs clock_defs block_defs hash_tx_block2_mined)

section \<open>The claims\<close>

lemmas ledger_defs = ledger_mined_def ledgerC_def ledgerD_def reward_def transfer_def

lemma ledgerC_reachable: "reachable sha256 anyTransaction ledgerC"
proof -
  have "reachable sha256 anyTransaction (scenarioC_pending sha256 clock_genesis)"
    unfolding scenarioC_pending_def
    by (intro reachable.created reachable.fresh) (simp_all add: anyTransaction_def)
  then show ?thesis
    using scenarioC_eval unfolding scenarioC_def by (rule reachable.mined)
qed

text \<open>
  C1. The claim: every ledger built by \<^verbatim>\<open>addBlock\<close> or \<^verbatim>\<open>minePedingTransactions\<close> from a
  new one passes \<^verbatim>\<open>isChainValid()\<close>. The transaction program breaks it at its first
  mined block: the ledger \<open>scenarioMine\<close> (a new ledger, then one call of
  \<^verbatim>\<open>minePedingTransactions("M")\<close>) holds a block whose \<^verbatim>\<open>prevHash\<close> is the empty string,
  the previous-hash test of the validation fails at index 1, and \<^verbatim>\<open>isChainValid()\<close>
  returns \<^verbatim>\<open>false\<close>. By \<open>ledger_never_valid\<close> this is so for every ledger of that
  program with a mined block.
\<close>

theorem mined_ledger_invalid:
  "scenarioMine sha256 clock_genesis clock_tx_block1 = Some ledger_mined
   \<and> chainReport sha256 ledger_mined = Some (LinkMismatch 1)
   \<and> isChainValid sha256 ledger_mined = False"
proof -
  have "chainReport sha256 ledger_mined = Some (LinkMismatch 1)"
    by (simp add: chainReport_def ledger_mined_def validateFrom.simps calc_tx_block1)
       (simp add: block_defs)
  with scenarioMine_eval show ?thesis by (simp add: isChainValid_def)
qed

text \<open>
  C2. The claim: the block that \<^verbatim>\<open>minePedingTransactions\<close> appends has the hash of the
  previous latest block as its \<^verbatim>\<open>prevHash\<close>. In the run \<open>scenarioMine\<close> the latest
  block before the call is the genesis block, with a hash of 64 characters, and the
  appended block has the empty string as \<^verbatim>\<open>prevHash\<close>. By \<open>minePedingTransactions_Some\<close>
  the appended block has the empty \<^verbatim>\<open>prevHash\<close> in every call.
\<close>

theorem mined_block_not_linked:
  "scenarioMine sha256 clock_genesis clock_tx_block1 = Some ledger_mined
   \<and> getLatestBlock (TxBlockchain_constructor sha256 clock_genesis) = Some tx_genesis
   \<and> hash tx_genesis = ''f83eab8dc8ddfff2dd997504a99d82fc9c6134d962149abbe1038d74b25377ad''
   \<and> getLatestBlock ledger_mined = Some (tx_block1 (Txs []))
   \<and> prevHash (tx_block1 (Txs [])) = []
   \<and> prevHash (tx_block1 (Txs [])) \<noteq> hash tx_genesis"
  using scenarioMine_eval
  by (simp add: getLatestBlock_def TxBlockchain_constructor_def genesis_tx_eval ledger_mined_def)
     (simp add: block_defs)

text \<open>
  C3, as the program behaves. A new ledger of the transaction program, the transfers of
  100 and of 200 from A to B, and one call of \<^verbatim>\<open>minePedingTransactions("M")\<close> that
  returns: the balance of B is 300, the balance of A is -300, and the balance of M is 0.
  The reward of M is the one pending transaction of the ledger and enters no balance
  before the next block is mined. This holds for any hash function and any clock.
\<close>

theorem scenarioC_balances:
  assumes "scenarioC SHA256 t0 t1 = Some bc"
  shows "getBalanceOfAddress bc (Some ''M'') = Inr (whole 0)
    \<and> getBalanceOfAddress bc (Some ''B'') = Inr (whole 300)
    \<and> getBalanceOfAddress bc (Some ''A'') = Inr (whole (- 300))"
proof -
  from assms obtain block where
    c: "chain bc = chain (scenarioC_pending SHA256 t0) @ [block]"
    and t: "transaction block = Txs (pendingTransaction (scenarioC_pending SHA256 t0))"
    unfolding scenarioC_def by (rule minePedingTransactions_Some)
  from c t show ?thesis
    by (simp add: getBalanceOfAddress_def scenarioC_pending_def createTransaction_def
        TxBlockchain_constructor_def createGenesisBlock_tx_def Block_constructor_tx_def Let_def
        applyTransaction_def applyCharacter_def transfer_def number_defs)
qed

text \<open>
  Witness for C3: the run \<open>scenarioC\<close> with \<open>sha256\<close> returns the ledger \<open>ledgerC\<close>.
\<close>

theorem scenarioC_balances_witness:
  "scenarioC sha256 clock_genesis clock_tx_block1 = Some ledgerC
   \<and> getBalanceOfAddress ledgerC (Some ''M'') = Inr (whole 0)
   \<and> getBalanceOfAddress ledgerC (Some ''B'') = Inr (whole 300)
   \<and> getBalanceOfAddress ledgerC (Some ''A'') = Inr (whole (- 300))"
  by (rule conjI [OF scenarioC_eval scenarioC_balances [OF scenarioC_eval]])

text \<open>
  Counterexample to C3 as stated (the balance of M equals the mining reward): in the run
  \<open>scenarioC\<close> the balance of M is 0 and the mining reward is 100.
\<close>

theorem scenarioC_reward_counterexample:
  "scenarioC sha256 clock_genesis clock_tx_block1 = Some ledgerC
   \<and> getBalanceOfAddress ledgerC (Some ''M'') = Inr (whole 0)
   \<and> miningReward ledgerC = whole 100
   \<and> getBalanceOfAddress ledgerC (Some ''M'') \<noteq> Inr (miningReward ledgerC)"
  using scenarioC_eval
  by (simp add: getBalanceOfAddress_def ledger_defs block_defs applyTransaction_def applyCharacter_def
      number_defs)

text \<open>
  C4. The claim: in the transaction program \<^verbatim>\<open>calculateHash()\<close> depends on the payload of
  the block. It reads \<^verbatim>\<open>this.index\<close> and \<^verbatim>\<open>this.data\<close>, which a block of that program
  does not have, and never \<^verbatim>\<open>this.transaction\<close>: the mined block of the run
  \<open>scenarioMine\<close> with an empty payload and with one transfer as payload has the same
  \<^verbatim>\<open>calculateHash()\<close>. By \<open>calculateHash_transaction_update\<close> the payload never changes
  the hash.
\<close>

theorem hash_ignores_payload:
  "calculateHash sha256 (tx_block1 (Txs [])) = ''0041af2047311ab83bc51d9d9cef4852a5cc236240d9fe2268bb6b53a094027a''
   \<and> calculateHash sha256 (tx_block1 (Txs [transfer ''A'' ''B'' 100])) = ''0041af2047311ab83bc51d9d9cef4852a5cc236240d9fe2268bb6b53a094027a''
   \<and> transaction (tx_block1 (Txs [])) \<noteq> transaction (tx_block1 (Txs [transfer ''A'' ''B'' 100]))"
  by (simp add: calc_tx_block1) (simp add: block_defs)

text \<open>
  C5. The claim: after the payload of a mined block at index \<open>i\<close> is overwritten and its
  stored hash kept, \<^verbatim>\<open>isChainValid()\<close> reports a hash mismatch at \<open>i\<close>. In the ledger of
  the run \<open>scenarioC\<close> the payload of block 1 is replaced by a transfer of 1000000: the
  stored hash still equals the recomputed one, and the validation reports what it reports
  without the change, the previous-hash mismatch at index 1. By
  \<open>chainReport_tamperPayload\<close> no change of a payload changes the report. (For the data of
  a block of \<^verbatim>\<open>index.js\<close> the claim holds, by \<open>tampered_data_detected\<close>.)
\<close>

theorem tampered_payload_undetected:
  "scenarioC sha256 clock_genesis clock_tx_block1 = Some ledgerC
   \<and> transaction (chain (tamperPayload 1 (Txs [transfer ''A'' ''B'' 1000000]) ledgerC) ! 1) \<noteq> transaction (chain ledgerC ! 1)
   \<and> hash (chain (tamperPayload 1 (Txs [transfer ''A'' ''B'' 1000000]) ledgerC) ! 1) = hash (chain ledgerC ! 1)
   \<and> chainReport sha256 (tamperPayload 1 (Txs [transfer ''A'' ''B'' 1000000]) ledgerC) = Some (LinkMismatch 1)"
proof -
  have "chainReport sha256 ledgerC = Some (LinkMismatch 1)"
    by (simp add: chainReport_def ledgerC_def validateFrom.simps calc_tx_block1)
       (simp add: block_defs)
  then have "chainReport sha256 (tamperPayload 1 (Txs [transfer ''A'' ''B'' 1000000]) ledgerC) = Some (LinkMismatch 1)"
    by (simp add: chainReport_tamperPayload)
  with scenarioC_eval show ?thesis
    by (simp add: tamperPayload_def ledgerC_def block_defs transfer_def)
qed

text \<open>
  C6. The claim: after Scenario A, overwriting the data of block 1 and recomputing its
  hash makes the validation report the previous-hash mismatch at index 2. In the run
  with the clock readings \<open>clock_block2_unmined\<close> and \<open>clock_block3_late\<close> the hash that
  the constructor stores for block 2 (computed with the empty \<^verbatim>\<open>prevHash\<close> and the
  \<^verbatim>\<open>undefined\<close> nonce) starts with two zeros, \<^verbatim>\<open>mineBlock\<close> returns without one
  iteration, and the block is appended with that hash. The validation then reports the
  hash mismatch at index 2. By \<open>scenarioB_report\<close> the report is the previous-hash
  mismatch at index 2 whenever the stored hash of block 2 is the hash of its fields and
  the recomputed hash of block 1 is a new one, as in the run \<open>typical_tampered\<close>.
\<close>

theorem scenarioB_unmined_block:
  "scenarioA sha256 clock_genesis clock_block1 clock_block2_unmined clock_block3_late = Some (Inr chain_unmined)
   \<and> length (chain chain_unmined) = 4
   \<and> chainReport sha256 (scenarioB sha256 chain_unmined) = Some (HashMismatch 2)"
  using scenarioA_unmined unmined_tampered by (simp add: chain_unmined_def)

text \<open>
  C7. For every block and every difficulty \<open>d\<close>, when \<^verbatim>\<open>mineBlock(d)\<close> returns, the first
  \<open>d\<close> characters of the block's hash are all \<^verbatim>\<open>'0'\<close>: the hash has at least \<open>d\<close>
  characters and its prefix of length \<open>d\<close> is the string of \<open>d\<close> zeros. This holds for
  any hash function, and \<^verbatim>\<open>mineBlock\<close> is the same in both programs.
\<close>

theorem mining_correct:
  assumes "mineBlock SHA256 d b = Some b'"
  shows "take d (hash b') = replicate d CHR ''0'' \<and> d \<le> length (hash b')
    \<and> list_all (\<lambda>c. c = CHR ''0'') (take d (hash b'))"
proof -
  from assms have p: "take d (hash b') = replicate d CHR ''0''" by (rule mineBlock_prefix)
  then have "length (take d (hash b')) = d" by simp
  then have "d \<le> length (hash b')" by simp
  with p show ?thesis by (simp add: list_all_iff)
qed

text \<open>
  Witness for C7: mining the first block of the transaction program at difficulty 2
  returns, at nonce 1, with a hash that starts with two zeros.
\<close>

theorem mining_correct_witness:
  "mineBlock sha256 2 (Block_constructor_tx sha256 clock_tx_block1 (Txs []) []) = Some (tx_block1 (Txs []))
   \<and> take 2 (hash (tx_block1 (Txs []))) = replicate 2 CHR ''0''
   \<and> 2 \<le> length (hash (tx_block1 (Txs [])))
   \<and> list_all (\<lambda>c. c = CHR ''0'') (take 2 (hash (tx_block1 (Txs []))))"
  by (rule conjI [OF mine_tx_block1 mining_correct [OF mine_tx_block1]])

text \<open>
  C8. The claim: after construction the nonce of a block is 0 and its stored hash is
  \<^verbatim>\<open>calculateHash()\<close> of its fields. The nonce is 0, but the constructor computes the hash
  one statement before it sets the nonce: the stored hash of
  \<^verbatim>\<open>new Block(1, "2025-01-15T10:30:01.201Z", {amount: 4})\<close> is the digest of the text
  that ends in \<^verbatim>\<open>undefined\<close>, and \<^verbatim>\<open>calculateHash()\<close> of the constructed block is the
  digest of the text that ends in \<^verbatim>\<open>0\<close>. \<open>hash_at_construction\<close> gives the two texts for
  every block.
\<close>

theorem constructor_hash_stale:
  "nonce (Block_constructor sha256 1 clock_block1 (amountData 4) []) = 0
   \<and> hash (Block_constructor sha256 1 clock_block1 (amountData 4) []) =
       ''b03844a050ae90e233f405b338be1ff162cb0eea58a90c9ad0e3eec02eb713c4''
   \<and> calculateHash sha256 (Block_constructor sha256 1 clock_block1 (amountData 4) []) =
       ''8437d2c10e16e557bf99d750047144fd92abaed73ec72398f653764fcf66bd07''
   \<and> hash (Block_constructor sha256 1 clock_block1 (amountData 4) []) \<noteq>
       calculateHash sha256 (Block_constructor sha256 1 clock_block1 (amountData 4) [])"
  by (simp add: Block_constructor_def calculateHash_def print_defs clock_defs Let_def
      hash_block1_constructed hash_block1_nonce0)

text \<open>
  C9. For every ledger that the operations of the transaction program build and every
  address (a string or \<^verbatim>\<open>null\<close>), \<^verbatim>\<open>getBalanceOfAddress\<close> returns a number and throws
  nothing; the number is the balance over the transactions of the blocks that hold an
  array of transactions; dropping every other block from the chain leaves it unchanged;
  the first block holds the string \<^verbatim>\<open>Genesis block\<close>, and dropping it leaves the balance
  unchanged.
\<close>

theorem balance_skips_other_payloads:
  assumes "reachable SHA256 P bc"
  shows "getBalanceOfAddress bc a = Inr (fold (applyTransaction a) (chainTransactions (chain bc)) (whole 0))
    \<and> getBalanceOfAddress (bc\<lparr>chain := filter holdsTransactions (chain bc)\<rparr>) a = getBalanceOfAddress bc a
    \<and> transaction (hd (chain bc)) = Text ''Genesis block''
    \<and> getBalanceOfAddress (bc\<lparr>chain := tl (chain bc)\<rparr>) a = getBalanceOfAddress bc a"
proof -
  from reachable_invariant [OF assms] have
    p: "list_all hasPayload (chain bc)" and ne: "chain bc \<noteq> []"
    and g: "transaction (hd (chain bc)) = Text ''Genesis block''"
    by simp_all
  have 1: "getBalanceOfAddress bc a = Inr (fold (applyTransaction a) (chainTransactions (chain bc)) (whole 0))"
    by (simp add: getBalanceOfAddress_def scanBlocks_payload [OF p])
  have 2: "getBalanceOfAddress (bc\<lparr>chain := filter holdsTransactions (chain bc)\<rparr>) a = getBalanceOfAddress bc a"
    by (simp add: getBalanceOfAddress_def scanBlocks_payload [OF p] scanBlocks_payload [OF hasPayload_filter]
        chainTransactions_filter)
  from ne obtain b rest where c: "chain bc = b # rest" by (cases "chain bc") auto
  with g have "scanBlocks a (chain bc) (whole 0) = scanBlocks a rest (whole 0)"
    by (simp add: applyCharacter_def)
  with c have 3: "getBalanceOfAddress (bc\<lparr>chain := tl (chain bc)\<rparr>) a = getBalanceOfAddress bc a"
    by (simp add: getBalanceOfAddress_def)
  from 1 2 g 3 show ?thesis by simp
qed

text \<open>
  Witness for C9: the ledger of the run \<open>scenarioC\<close> is built by the operations, and the
  balance of B in it is 300 with or without the genesis block.
\<close>

theorem balance_skips_other_payloads_witness:
  "reachable sha256 anyTransaction ledgerC
   \<and> getBalanceOfAddress ledgerC (Some ''B'') = Inr (whole 300)
   \<and> getBalanceOfAddress (ledgerC\<lparr>chain := filter holdsTransactions (chain ledgerC)\<rparr>) (Some ''B'') = Inr (whole 300)
   \<and> transaction (hd (chain ledgerC)) = Text ''Genesis block''
   \<and> getBalanceOfAddress (ledgerC\<lparr>chain := tl (chain ledgerC)\<rparr>) (Some ''B'') = Inr (whole 300)"
  using balance_skips_other_payloads [OF ledgerC_reachable, of "Some ''B''"] ledgerC_reachable
  by (simp add: ledger_defs block_defs chainTransactions_def transactionsOf_def applyTransaction_def
      number_defs)

text \<open>
  C10, as the program behaves. In a ledger of the transaction program whose blocks hold
  transfers between two addresses and rewards of the mining reward, where every amount
  is an integer and the absolute amounts of the transactions of the chain add up to at
  most \<open>2^53 - 1 = 9007199254740991\<close> (\<^verbatim>\<open>Number.MAX_SAFE_INTEGER\<close>), the balances of all
  addresses that occur in a transaction of the chain add up to the mining reward times
  the number of rewards in the chain; with transfers only, they add up to 0.
\<close>

theorem balance_conservation:
  assumes "list_all hasPayload (chain bc)"
    and "list_all (transferOrReward (miningReward bc)) (chainTransactions (chain bc))"
    and "wholeAmounts (chainTransactions (chain bc))"
    and "volume (chainTransactions (chain bc)) \<le> 9007199254740991"
    and "miningReward bc = whole r"
  shows "sumBalances bc (addresses (chainTransactions (chain bc))) =
      Inr (whole (r * int (length (filter (isReward (miningReward bc)) (chainTransactions (chain bc))))))
    \<and> (list_all isPeerToPeer (chainTransactions (chain bc)) \<longrightarrow>
         sumBalances bc (addresses (chainTransactions (chain bc))) = Inr (whole 0))"
proof -
  from assms(4) have v: "volume (chainTransactions (chain bc)) < 9007199254740992" by simp
  from assms(5) have u: "units (miningReward bc) = r" by (simp add: units_def whole_def)
  have total: "sumBalances bc (addresses (chainTransactions (chain bc))) =
      Inr (whole (r * int (length (filter (isReward (miningReward bc)) (chainTransactions (chain bc))))))"
    by (simp add: sumBalances_whole [OF assms(1) assms(3) v distinct_addresses] grand_total [OF assms(2)] u)
  have "filter (isReward (miningReward bc)) (chainTransactions (chain bc)) = []"
    if "list_all isPeerToPeer (chainTransactions (chain bc))"
    using that by (auto simp: filter_empty_conv list_all_iff isPeerToPeer_def isReward_def)
  with total show ?thesis by simp
qed

text \<open>
  Witness for C10: the ledger after the second call of \<^verbatim>\<open>minePedingTransactions\<close> in the
  run \<open>scenarioD\<close> holds two transfers and one reward, of volume 400; the balances of A,
  B and M add up to 100. The ledger of the run \<open>scenarioC\<close> holds the two transfers only,
  of volume 300; the balances of A and B add up to 0.
\<close>

theorem balance_conservation_witness:
  "scenarioD sha256 clock_genesis clock_tx_block1 clock_tx_block2 = Some ledgerD
   \<and> list_all hasPayload (chain ledgerD)
   \<and> list_all (transferOrReward (miningReward ledgerD)) (chainTransactions (chain ledgerD))
   \<and> wholeAmounts (chainTransactions (chain ledgerD))
   \<and> volume (chainTransactions (chain ledgerD)) = 400
   \<and> miningReward ledgerD = whole 100
   \<and> addresses (chainTransactions (chain ledgerD)) = [Some ''A'', Some ''B'', Some ''M'']
   \<and> length (filter (isReward (miningReward ledgerD)) (chainTransactions (chain ledgerD))) = 1
   \<and> sumBalances ledgerD (addresses (chainTransactions (chain ledgerD))) = Inr (whole 100)
   \<and> scenarioC sha256 clock_genesis clock_tx_block1 = Some ledgerC
   \<and> list_all hasPayload (chain ledgerC)
   \<and> list_all isPeerToPeer (chainTransactions (chain ledgerC))
   \<and> wholeAmounts (chainTransactions (chain ledgerC))
   \<and> volume (chainTransactions (chain ledgerC)) = 300
   \<and> addresses (chainTransactions (chain ledgerC)) = [Some ''A'', Some ''B'']
   \<and> sumBalances ledgerC (addresses (chainTransactions (chain ledgerC))) = Inr (whole 0)"
proof -
  have p: "list_all hasPayload (chain ledgerD)"
    by (simp add: ledger_defs block_defs hasPayload_def)
  have txs: "chainTransactions (chain ledgerD) = [transfer ''A'' ''B'' 100, transfer ''A'' ''B'' 200, reward ''M'']"
    by (simp add: ledgerD_def block_defs chainTransactions_def transactionsOf_def)
  have r: "miningReward ledgerD = whole 100"
    by (simp add: ledgerD_def)
  have t: "list_all (transferOrReward (miningReward ledgerD)) (chainTransactions (chain ledgerD))"
    by (simp add: txs r transferOrReward_def isPeerToPeer_def isReward_def reward_def transfer_def)
  have w: "wholeAmounts (chainTransactions (chain ledgerD))"
    by (simp add: txs wholeAmounts_def isWhole_def whole_def reward_def transfer_def)
  have v: "volume (chainTransactions (chain ledgerD)) = 400"
    by (simp add: txs volume_def units_def whole_def reward_def transfer_def)
  have a: "addresses (chainTransactions (chain ledgerD)) = [Some ''A'', Some ''B'', Some ''M'']"
    by (simp add: txs addresses_def reward_def transfer_def)
  have n: "length (filter (isReward (miningReward ledgerD)) (chainTransactions (chain ledgerD))) = 1"
    by (simp add: txs r isReward_def reward_def transfer_def whole_def)
  have p': "list_all hasPayload (chain ledgerC)"
    by (simp add: ledger_defs block_defs hasPayload_def)
  have txs': "chainTransactions (chain ledgerC) = [transfer ''A'' ''B'' 100, transfer ''A'' ''B'' 200]"
    by (simp add: ledgerC_def block_defs chainTransactions_def transactionsOf_def)
  have r': "miningReward ledgerC = whole 100"
    by (simp add: ledgerC_def)
  have q': "list_all isPeerToPeer (chainTransactions (chain ledgerC))"
    by (simp add: txs' isPeerToPeer_def transfer_def)
  then have t': "list_all (transferOrReward (miningReward ledgerC)) (chainTransactions (chain ledgerC))"
    by (simp add: list_all_iff transferOrReward_def)
  have w': "wholeAmounts (chainTransactions (chain ledgerC))"
    by (simp add: txs' wholeAmounts_def isWhole_def whole_def transfer_def)
  have v': "volume (chainTransactions (chain ledgerC)) = 300"
    by (simp add: txs' volume_def units_def whole_def transfer_def)
  have a': "addresses (chainTransactions (chain ledgerC)) = [Some ''A'', Some ''B'']"
    by (simp add: txs' addresses_def transfer_def)
  from v have b: "volume (chainTransactions (chain ledgerD)) \<le> 9007199254740991" by simp
  from v' have b': "volume (chainTransactions (chain ledgerC)) \<le> 9007199254740991" by simp
  from balance_conservation [OF p t w b r] n
  have s: "sumBalances ledgerD (addresses (chainTransactions (chain ledgerD))) = Inr (whole 100)"
    by simp
  from balance_conservation [OF p' t' w' b' r'] q'
  have s': "sumBalances ledgerC (addresses (chainTransactions (chain ledgerC))) = Inr (whole 0)"
    by blast
  from scenarioD_eval p t w v r a n s scenarioC_eval p' q' w' v' a' s'
  show ?thesis by (intro conjI)
qed

text \<open>
  Counterexample to C10 as stated (with transfers only, the balances of all addresses
  add up to 0): in the run \<open>scenarioBig\<close> A sends \<open>2^53 = 9007199254740992\<close> to B and C
  sends 1 to B. The balance of B is rounded: \<open>2^53 + 1\<close> is no double, and
  \<^verbatim>\<open>balance += 1\<close> leaves \<open>2^53\<close> (\<open>Finite 4503599627370496 1\<close>). The balances of A, B and
  C are \<open>- 2^53\<close>, \<open>2^53\<close> and \<open>-1\<close>, and they add up to \<open>-1\<close>.
\<close>

theorem balance_conservation_counterexample:
  "scenarioBig sha256 clock_genesis clock_tx_block1 = Some ledgerBig
   \<and> list_all hasPayload (chain ledgerBig)
   \<and> list_all isPeerToPeer (chainTransactions (chain ledgerBig))
   \<and> addresses (chainTransactions (chain ledgerBig)) = [Some ''A'', Some ''C'', Some ''B'']
   \<and> getBalanceOfAddress ledgerBig (Some ''A'') = Inr (Finite (- 4503599627370496) 1)
   \<and> getBalanceOfAddress ledgerBig (Some ''B'') = Inr (Finite 4503599627370496 1)
   \<and> getBalanceOfAddress ledgerBig (Some ''C'') = Inr (whole (- 1))
   \<and> sumBalances ledgerBig (addresses (chainTransactions (chain ledgerBig))) = Inr (whole (- 1))
   \<and> sumBalances ledgerBig (addresses (chainTransactions (chain ledgerBig))) \<noteq> Inr (whole 0)"
proof -
  have txs: "chainTransactions (chain ledgerBig) = [transfer ''A'' ''B'' 9007199254740992, transfer ''C'' ''B'' 1]"
    by (simp add: ledgerBig_def block_defs chainTransactions_def transactionsOf_def)
  have p: "list_all hasPayload (chain ledgerBig)"
    by (simp add: ledgerBig_def block_defs hasPayload_def)
  have t: "list_all isPeerToPeer (chainTransactions (chain ledgerBig))"
    by (simp add: txs isPeerToPeer_def transfer_def)
  have a: "addresses (chainTransactions (chain ledgerBig)) = [Some ''A'', Some ''C'', Some ''B'']"
    by (simp add: txs addresses_def transfer_def)
  have bA: "getBalanceOfAddress ledgerBig (Some ''A'') = Inr (Finite (- 4503599627370496) 1)"
    by (simp add: getBalanceOfAddress_def scanBlocks_payload [OF p] txs transfer_def applyTransaction_def
        bits_big number_defs)
  have bB: "getBalanceOfAddress ledgerBig (Some ''B'') = Inr (Finite 4503599627370496 1)"
    by (simp add: getBalanceOfAddress_def scanBlocks_payload [OF p] txs transfer_def applyTransaction_def
        bits_big number_defs)
  have bC: "getBalanceOfAddress ledgerBig (Some ''C'') = Inr (whole (- 1))"
    by (simp add: getBalanceOfAddress_def scanBlocks_payload [OF p] txs transfer_def applyTransaction_def
        number_defs)
  have s: "sumBalances ledgerBig (addresses (chainTransactions (chain ledgerBig))) = Inr (whole (- 1))"
    by (simp add: a bA bB bC number_defs)
  from scenarioBig_eval p t a bA bB bC s show ?thesis by (simp add: whole_def)
qed

end
